theory Spec2Isabelle
  imports Complex_Main "HOL-Library.Word" "HOL-Library.Option_ord" "HOL-Library.Multiset"
begin

text \<open>
  A model of the Chef API server, \<^verbatim>\<open>index.js\<close> in the version that connects to
  MongoDB on demand: the handlers of the routes under \<^verbatim>\<open>/api/users\<close> and
  \<^verbatim>\<open>/api/items\<close>, the connection helper \<^verbatim>\<open>connectToMongo\<close> and the CORS
  allow-list. Requests are served one after the other; Express, the JSON body parser and
  the MongoDB driver are the environment, modelled by what the handlers use of them.
\<close>

section \<open>JavaScript values\<close>

text \<open>
  The handlers of \<^verbatim>\<open>index.js\<close> read the parsed JSON body of a request without a
  schema, so the model keeps JavaScript's dynamic values. A number is an IEEE double: the
  handlers never compute with one, they only test \<^verbatim>\<open>typeof price\<close> and truthiness,
  so a finite double is kept as the rational it denotes, \<open>Finite 0\<close> being the
  positive zero and \<open>NegZero\<close> the negative one (both are falsy). \<open>JDate\<close> holds the milliseconds of a \<^verbatim>\<open>Date\<close>, \<open>JObjectId\<close> the
  twelve bytes of a driver \<^verbatim>\<open>ObjectId\<close>. An object is the list of its own properties
  in insertion order, with one entry per key.
\<close>

datatype jsnum = Finite rat | NegZero | PosInfinity | NegInfinity | NaN

type_synonym objectid = "96 word"

datatype jsval =
    JUndefined
  | JNull
  | JBool bool
  | JNum jsnum
  | JStr string
  | JArr "jsval list"
  | JObj "(string \<times> jsval) list"
  | JDate int
  | JObjectId objectid

type_synonym document = "(string \<times> jsval) list"

text \<open>\<^verbatim>\<open>!x\<close> is \<open>\<not> truthy x\<close>; \<^verbatim>\<open>Boolean(x)\<close> is \<open>truthy x\<close>.\<close>

fun truthy :: "jsval \<Rightarrow> bool" where
  "truthy JUndefined = False"
| "truthy JNull = False"
| "truthy (JBool b) = b"
| "truthy (JNum (Finite q)) = (q \<noteq> 0)"
| "truthy (JNum NegZero) = False"
| "truthy (JNum NaN) = False"
| "truthy (JNum PosInfinity) = True"
| "truthy (JNum NegInfinity) = True"
| "truthy (JStr s) = (s \<noteq> [])"
| "truthy (JArr xs) = True"
| "truthy (JObj kvs) = True"
| "truthy (JDate t) = True"
| "truthy (JObjectId i) = True"

text \<open>\<^verbatim>\<open>a || b\<close>\<close>

definition js_or :: "jsval \<Rightarrow> jsval \<Rightarrow> jsval" where
  "js_or a b = (if truthy a then a else b)"

text \<open>\<^verbatim>\<open>typeof x === 'number'\<close>\<close>

fun is_number :: "jsval \<Rightarrow> bool" where
  "is_number (JNum n) = True"
| "is_number v = False"


text \<open>\<^verbatim>\<open>Array.isArray(x)\<close>\<close>

fun isArray :: "jsval \<Rightarrow> bool" where
  "isArray (JArr xs) = True"
| "isArray v = False"

text \<open>
  Reading the property \<open>k\<close> of an object: its own entry, or \<^verbatim>\<open>undefined\<close>. The
  destructuring \<^verbatim>\<open>const { email, name } = v\<close> reads \<open>get_field v k\<close> for each name;
  on an array or a primitive none of the names the handlers read is defined.
\<close>

definition getProp :: "document \<Rightarrow> string \<Rightarrow> jsval" where
  "getProp kvs k = (case map_of kvs k of Some v \<Rightarrow> v | None \<Rightarrow> JUndefined)"

fun get_field :: "jsval \<Rightarrow> string \<Rightarrow> jsval" where
  "get_field (JObj kvs) k = getProp kvs k"
| "get_field v k = JUndefined"

section \<open>The driver's ObjectId\<close>

text \<open>
  The MongoDB driver is a dependency of the repository. For a string, its
  \<^verbatim>\<open>new ObjectId(s)\<close> accepts exactly 24 hexadecimal digits (either case) and throws
  otherwise; \<^verbatim>\<open>ObjectId.isValid(s)\<close> runs the constructor and reports whether it
  threw; \<^verbatim>\<open>toHexString()\<close> prints the twelve bytes as 24 lower-case digits.
\<close>

datatype error = BSONError | MongoNetworkError | DuplicateKeyError

definition hexVal :: "char \<Rightarrow> nat option" where
  "hexVal c =
     (let n = (of_char c :: nat) in
      if 48 \<le> n \<and> n \<le> 57 then Some (n - 48)
      else if 97 \<le> n \<and> n \<le> 102 then Some (n - 87)
      else if 65 \<le> n \<and> n \<le> 70 then Some (n - 55)
      else None)"

fun fromHex :: "nat \<Rightarrow> string \<Rightarrow> nat option" where
  "fromHex acc [] = Some acc"
| "fromHex acc (c # cs) =
     (case hexVal c of None \<Rightarrow> None | Some d \<Rightarrow> fromHex (16 * acc + d) cs)"

definition ObjectId_new :: "string \<Rightarrow> error + objectid" where
  "ObjectId_new s =
     (if length s = 24 then
        (case fromHex 0 s of Some n \<Rightarrow> Inr (of_nat n) | None \<Rightarrow> Inl BSONError)
      else Inl BSONError)"

definition ObjectId_isValid :: "string \<Rightarrow> bool" where
  "ObjectId_isValid s = (case ObjectId_new s of Inr i \<Rightarrow> True | Inl e \<Rightarrow> False)"

definition hexDigit :: "nat \<Rightarrow> char" where
  "hexDigit d = ''0123456789abcdef'' ! d"

fun toHex :: "nat \<Rightarrow> nat \<Rightarrow> string" where
  "toHex 0 n = []"
| "toHex (Suc k) n = toHex k (n div 16) @ [hexDigit (n mod 16)]"

definition toHexString :: "objectid \<Rightarrow> string" where
  "toHexString i = toHex 24 (unat i)"

section \<open>The store and the driver calls\<close>

text \<open>
  The document store is the external collaborator behind \<^verbatim>\<open>client\<close>. A collection
  is the list of its documents in insertion order; \<open>db\<close> maps a collection name to it.
  Every call into the driver is appended to \<open>calls\<close>, whether it resolves or rejects,
  so that "no store access" is a statement about the state. \<open>isConnected\<close> is the
  module's flag of the same name.

  What the process cannot decide is supplied per request by \<open>env\<close>: the clock read by
  \<^verbatim>\<open>new Date()\<close>, the \<^verbatim>\<open>ObjectId\<close> the driver generates for an inserted document,
  and whether a driver call of a given kind resolves (\<open>driverOk\<close>) or rejects. A
  rejected call leaves the collections as they were.
\<close>

datatype driver_call =
    ClientConnect
  | FindOne string
  | InsertOne string
  | DeleteOne string
  | Find string

record env =
  now :: int
  newId :: objectid
  driverOk :: "driver_call \<Rightarrow> bool"

record world =
  isConnected :: bool
  calls :: "driver_call list"
  db :: "string \<Rightarrow> document list"

text \<open>
  \<^verbatim>\<open>
  let isConnected = false;
  async function connectToMongo() {
    if (!isConnected) {
      await client.connect();
      isConnected = true;
    }
    return client;
  }
  \<close>
\<close>

definition connectToMongo :: "env \<Rightarrow> world \<Rightarrow> (error + unit) \<times> world" where
  "connectToMongo e s =
     (if \<not> isConnected s then
        (let s1 = s\<lparr>calls := calls s @ [ClientConnect]\<rparr> in
         if driverOk e ClientConnect then (Inr (), s1\<lparr>isConnected := True\<rparr>)
         else (Inl MongoNetworkError, s1))
      else (Inr (), s))"

text \<open>The accessors return the handle of a collection, here its name.\<close>

definition getItemsCollection :: "env \<Rightarrow> world \<Rightarrow> (error + string) \<times> world" where
  "getItemsCollection e s =
     (case connectToMongo e s of
        (Inl err, s1) \<Rightarrow> (Inl err, s1)
      | (Inr u, s1) \<Rightarrow> (Inr ''items'', s1))"

definition getUsersCollection :: "env \<Rightarrow> world \<Rightarrow> (error + string) \<times> world" where
  "getUsersCollection e s =
     (case connectToMongo e s of
        (Inl err, s1) \<Rightarrow> (Inl err, s1)
      | (Inr u, s1) \<Rightarrow> (Inr ''users'', s1))"

text \<open>
  The filters the handlers pass are single equalities, \<^verbatim>\<open>{ email }\<close> and
  \<^verbatim>\<open>{ _id: new ObjectId(id) }\<close>: a document matches when it holds that value under
  that key. This is the store's match for an ObjectId operand, and for a string operand
  against fields that are not arrays. The store matches an array field by its elements,
  and reads an object operand as query operators; neither is modelled, and the statements
  about the \<^verbatim>\<open>email\<close> filter are made for string operands and collections whose
  \<^verbatim>\<open>email\<close> fields are strings.
\<close>

definition matches :: "string \<times> jsval \<Rightarrow> document \<Rightarrow> bool" where
  "matches flt d = (getProp d (fst flt) = snd flt)"

definition findOne ::
  "env \<Rightarrow> string \<Rightarrow> string \<times> jsval \<Rightarrow> world \<Rightarrow> (error + document option) \<times> world" where
  "findOne e c flt s =
     (let s1 = s\<lparr>calls := calls s @ [FindOne c]\<rparr> in
      if driverOk e (FindOne c) then (Inr (find (matches flt) (db s c)), s1)
      else (Inl MongoNetworkError, s1))"

text \<open>
  \<^verbatim>\<open>insertOne\<close> gives a document without \<^verbatim>\<open>_id\<close> the generated one, as its first
  field, and resolves to it; the store's unique index on \<^verbatim>\<open>_id\<close> rejects a duplicate.
\<close>

definition insertOne ::
  "env \<Rightarrow> string \<Rightarrow> document \<Rightarrow> world \<Rightarrow> (error + objectid) \<times> world" where
  "insertOne e c doc s =
     (let s1 = s\<lparr>calls := calls s @ [InsertOne c]\<rparr> in
      if \<not> driverOk e (InsertOne c) then (Inl MongoNetworkError, s1)
      else if JObjectId (newId e) \<in> set (map (\<lambda>d. getProp d ''_id'') (db s c))
      then (Inl DuplicateKeyError, s1)
      else (Inr (newId e),
            s1\<lparr>db := (db s)(c := db s c @ [(''_id'', JObjectId (newId e)) # doc])\<rparr>))"

fun deleteFirst :: "('a \<Rightarrow> bool) \<Rightarrow> 'a list \<Rightarrow> 'a list" where
  "deleteFirst P [] = []"
| "deleteFirst P (x # xs) = (if P x then xs else x # deleteFirst P xs)"

text \<open>\<^verbatim>\<open>deleteOne\<close> removes the first match and resolves to \<^verbatim>\<open>deletedCount\<close>.\<close>

definition deleteOne ::
  "env \<Rightarrow> string \<Rightarrow> string \<times> jsval \<Rightarrow> world \<Rightarrow> (error + nat) \<times> world" where
  "deleteOne e c flt s =
     (let s1 = s\<lparr>calls := calls s @ [DeleteOne c]\<rparr> in
      if \<not> driverOk e (DeleteOne c) then (Inl MongoNetworkError, s1)
      else if find (matches flt) (db s c) = None then (Inr 0, s1)
      else (Inr 1, s1\<lparr>db := (db s)(c := deleteFirst (matches flt) (db s c))\<rparr>))"

text \<open>
  \<^verbatim>\<open>find({}).sort({ createdAt: -1 })\<close>, with \<^verbatim>\<open>.limit(n)\<close> when \<open>cap\<close> is
  \<open>Some n\<close>, then \<^verbatim>\<open>toArray()\<close>. The sort key of a document is the time of its
  \<^verbatim>\<open>createdAt\<close> date; a document without one sorts after every dated document, as a
  missing field does in a descending sort. Documents with equal keys keep their order.
\<close>

definition createdAtKey :: "document \<Rightarrow> int option" where
  "createdAtKey d = (case getProp d ''createdAt'' of JDate t \<Rightarrow> Some t | _ \<Rightarrow> None)"

definition sortDescending :: "document list \<Rightarrow> document list" where
  "sortDescending ds = rev (sort_key createdAtKey (rev ds))"

definition findSorted ::
  "env \<Rightarrow> string \<Rightarrow> nat option \<Rightarrow> world \<Rightarrow> (error + document list) \<times> world" where
  "findSorted e c cap s =
     (let s1 = s\<lparr>calls := calls s @ [Find c]\<rparr> in
      if driverOk e (Find c) then
        (Inr (case cap of None \<Rightarrow> sortDescending (db s c)
                        | Some n \<Rightarrow> take n (sortDescending (db s c))), s1)
      else (Inl MongoNetworkError, s1))"

section \<open>Responses\<close>

record response =
  status :: nat
  body :: jsval

text \<open>
  \<^verbatim>\<open>res.status(n).json(v)\<close>; \<^verbatim>\<open>res.json(v)\<close> answers 200. \<open>body\<close> is the value
  \<open>v\<close> handed to \<^verbatim>\<open>res.json\<close>; what the client reads off the wire is \<open>sent v\<close>,
  defined below.
\<close>

definition json :: "nat \<Rightarrow> jsval \<Rightarrow> response" where
  "json n v = \<lparr>status = n, body = v\<rparr>"

text \<open>
  Every handler wraps its body in \<^verbatim>\<open>try { ... } catch (err) { next(err) }\<close>, and
  the global error handler answers any error alike.
\<close>

definition errorHandler :: "error \<Rightarrow> response" where
  "errorHandler err = json 500 (JObj [(''error'', JStr ''Internal server error'')])"

section \<open>What the client receives\<close>

text \<open>
  \<^verbatim>\<open>res.json(v)\<close> sends \<^verbatim>\<open>JSON.stringify(v)\<close>. \<open>sent v\<close> is the value a client
  gets by parsing that text: a number that is not finite becomes \<^verbatim>\<open>null\<close>, the
  negative zero becomes 0, a \<^verbatim>\<open>Date\<close> becomes its \<^verbatim>\<open>toISOString()\<close> (or
  \<^verbatim>\<open>null\<close> outside the range of valid dates), an \<^verbatim>\<open>ObjectId\<close> its
  \<^verbatim>\<open>toHexString()\<close>; \<^verbatim>\<open>undefined\<close> is left out of an object and is \<^verbatim>\<open>null\<close> in an
  array.
\<close>

fun decimal :: "nat \<Rightarrow> nat \<Rightarrow> string" where
  "decimal 0 n = []"
| "decimal (Suc k) n = decimal k (n div 10) @ [''0123456789'' ! (n mod 10)]"

text \<open>
  \<^verbatim>\<open>Date.prototype.toISOString\<close> for the time value \<open>t\<close>, in milliseconds since
  1970-01-01T00:00:00Z. The day number is turned into a proleptic Gregorian date by
  counting in eras of 400 years (146097 days) that start on 1 March of a year divisible
  by 400; day 0 of era 0, the first of March of the year 0, is 719468 days before
  1970-01-01. A year outside 0..9999 is printed with a sign and six digits.
\<close>

definition Day :: "int \<Rightarrow> int" where
  "Day t = t div 86400000"

definition TimeWithinDay :: "int \<Rightarrow> nat" where
  "TimeWithinDay t = nat (t mod 86400000)"

definition eraOf :: "int \<Rightarrow> int" where
  "eraOf t = (Day t + 719468) div 146097"

definition dayOfEra :: "int \<Rightarrow> nat" where
  "dayOfEra t = nat ((Day t + 719468) mod 146097)"

definition yearOfEra :: "int \<Rightarrow> nat" where
  "yearOfEra t =
     (dayOfEra t - dayOfEra t div 1460 + dayOfEra t div 36524 - dayOfEra t div 146096) div 365"

text \<open>The day within the year that starts on 1 March, and the month counted from March.\<close>

definition dayOfMarchYear :: "int \<Rightarrow> nat" where
  "dayOfMarchYear t =
     dayOfEra t - (365 * yearOfEra t + yearOfEra t div 4 - yearOfEra t div 100)"

definition monthFromMarch :: "int \<Rightarrow> nat" where
  "monthFromMarch t = (5 * dayOfMarchYear t + 2) div 153"

definition DateFromTime :: "int \<Rightarrow> nat" where
  "DateFromTime t = dayOfMarchYear t - (153 * monthFromMarch t + 2) div 5 + 1"

text \<open>The month, 1 for January.\<close>

definition MonthFromTime :: "int \<Rightarrow> nat" where
  "MonthFromTime t =
     (if monthFromMarch t < 10 then monthFromMarch t + 3 else monthFromMarch t - 9)"

definition YearFromTime :: "int \<Rightarrow> int" where
  "YearFromTime t =
     int (yearOfEra t) + eraOf t * 400 + (if MonthFromTime t \<le> 2 then 1 else 0)"

definition yearString :: "int \<Rightarrow> string" where
  "yearString y =
     (if 0 \<le> y \<and> y \<le> 9999 then decimal 4 (nat y)
      else (if y < 0 then ''-'' else ''+'') @ decimal 6 (nat \<bar>y\<bar>))"

definition toISOString :: "int \<Rightarrow> string" where
  "toISOString t =
     yearString (YearFromTime t)
     @ ''-'' @ decimal 2 (MonthFromTime t)
     @ ''-'' @ decimal 2 (DateFromTime t)
     @ ''T'' @ decimal 2 (TimeWithinDay t div 3600000)
     @ '':'' @ decimal 2 (TimeWithinDay t div 60000 mod 60)
     @ '':'' @ decimal 2 (TimeWithinDay t div 1000 mod 60)
     @ ''.'' @ decimal 3 (TimeWithinDay t mod 1000)
     @ ''Z''"

fun sent :: "jsval \<Rightarrow> jsval"
  and sentItems :: "jsval list \<Rightarrow> jsval list"
  and sentProps :: "(string \<times> jsval) list \<Rightarrow> (string \<times> jsval) list" where
  "sent JUndefined = JUndefined"
| "sent JNull = JNull"
| "sent (JBool b) = JBool b"
| "sent (JNum (Finite q)) = JNum (Finite q)"
| "sent (JNum NegZero) = JNum (Finite 0)"
| "sent (JNum PosInfinity) = JNull"
| "sent (JNum NegInfinity) = JNull"
| "sent (JNum NaN) = JNull"
| "sent (JStr u) = JStr u"
| "sent (JArr vs) = JArr (sentItems vs)"
| "sent (JObj kvs) = JObj (sentProps kvs)"
| "sent (JDate t) =
     (if \<bar>t\<bar> \<le> 8640000000000000 then JStr (toISOString t) else JNull)"
| "sent (JObjectId i) = JStr (toHexString i)"
| "sentItems [] = []"
| "sentItems (v # vs) = (if v = JUndefined then JNull else sent v) # sentItems vs"
| "sentProps [] = []"
| "sentProps ((k, v) # kvs) =
     (if v = JUndefined then sentProps kvs else (k, sent v) # sentProps kvs)"

text \<open>
  The values JSON carries unchanged: \<^verbatim>\<open>null\<close>, booleans, strings, finite numbers but
  for the negative zero, and arrays and objects of such values.
\<close>

fun plainJson :: "jsval \<Rightarrow> bool"
  and plainItems :: "jsval list \<Rightarrow> bool"
  and plainProps :: "(string \<times> jsval) list \<Rightarrow> bool" where
  "plainJson JUndefined = False"
| "plainJson JNull = True"
| "plainJson (JBool b) = True"
| "plainJson (JNum (Finite q)) = True"
| "plainJson (JNum NegZero) = False"
| "plainJson (JNum PosInfinity) = False"
| "plainJson (JNum NegInfinity) = False"
| "plainJson (JNum NaN) = False"
| "plainJson (JStr u) = True"
| "plainJson (JArr vs) = plainItems vs"
| "plainJson (JObj kvs) = plainProps kvs"
| "plainJson (JDate t) = False"
| "plainJson (JObjectId i) = False"
| "plainItems [] = True"
| "plainItems (v # vs) = (plainJson v \<and> plainItems vs)"
| "plainProps [] = True"
| "plainProps ((k, v) # kvs) = (plainJson v \<and> plainProps kvs)"

section \<open>The handlers\<close>

text \<open>
  A handler takes the request's environment, its input and the state, and returns the
  response with the state it leaves. \<open>b\<close> is \<^verbatim>\<open>req.body\<close> (\<open>JUndefined\<close> when the
  request carried none), \<open>id'\<close> is \<^verbatim>\<open>req.params.id\<close>.
\<close>

text \<open>
  \<^verbatim>\<open>app.post('/api/users', ...)\<close>. The answer
  \<^verbatim>\<open>{ _id: result.insertedId, ...user }\<close> is the object with \<^verbatim>\<open>_id\<close> first and
  the fields of \<^verbatim>\<open>user\<close> after it.
\<close>

definition post_users :: "env \<Rightarrow> jsval \<Rightarrow> world \<Rightarrow> response \<times> world" where
  "post_users e b s =
     (let req = js_or b (JObj []);
          email = get_field req ''email'';
          name = get_field req ''name'';
          role = get_field req ''role''
      in
      if \<not> truthy email \<or> \<not> truthy name then
        (json 400 (JObj [(''error'', JStr ''email and name are required'')]), s)
      else
        (case getUsersCollection e s of
           (Inl err, s1) \<Rightarrow> (errorHandler err, s1)
         | (Inr usersCollection, s1) \<Rightarrow>
             (case findOne e usersCollection (''email'', email) s1 of
                (Inl err, s2) \<Rightarrow> (errorHandler err, s2)
              | (Inr (Some existingUser), s2) \<Rightarrow>
                  (json 409 (JObj [(''error'', JStr ''User already exists'')]), s2)
              | (Inr None, s2) \<Rightarrow>
                  (let user = [(''email'', email),
                               (''name'', name),
                               (''role'', js_or role (JStr ''staff'')),
                               (''createdAt'', JDate (now e))]
                   in
                   case insertOne e usersCollection user s2 of
                     (Inl err, s3) \<Rightarrow> (errorHandler err, s3)
                   | (Inr insertedId, s3) \<Rightarrow>
                       (json 201 (JObj ((''_id'', JObjectId insertedId) # user)), s3)))))"

text \<open>\<^verbatim>\<open>app.get('/api/users', ...)\<close>\<close>

definition get_users :: "env \<Rightarrow> world \<Rightarrow> response \<times> world" where
  "get_users e s =
     (case getUsersCollection e s of
        (Inl err, s1) \<Rightarrow> (errorHandler err, s1)
      | (Inr usersCollection, s1) \<Rightarrow>
          (case findSorted e usersCollection None s1 of
             (Inl err, s2) \<Rightarrow> (errorHandler err, s2)
           | (Inr users, s2) \<Rightarrow> (json 200 (JArr (map JObj users)), s2)))"

text \<open>\<^verbatim>\<open>app.get('/api/users/:id', ...)\<close>\<close>

definition get_user :: "env \<Rightarrow> string \<Rightarrow> world \<Rightarrow> response \<times> world" where
  "get_user e id' s =
     (if \<not> ObjectId_isValid id' then
        (json 400 (JObj [(''error'', JStr ''Invalid user id'')]), s)
      else
        (case getUsersCollection e s of
           (Inl err, s1) \<Rightarrow> (errorHandler err, s1)
         | (Inr usersCollection, s1) \<Rightarrow>
             (case ObjectId_new id' of
                Inl err \<Rightarrow> (errorHandler err, s1)
              | Inr oid \<Rightarrow>
                  (case findOne e usersCollection (''_id'', JObjectId oid) s1 of
                     (Inl err, s2) \<Rightarrow> (errorHandler err, s2)
                   | (Inr None, s2) \<Rightarrow>
                       (json 404 (JObj [(''error'', JStr ''User not found'')]), s2)
                   | (Inr (Some user), s2) \<Rightarrow> (json 200 (JObj user), s2)))))"

text \<open>\<^verbatim>\<open>app.delete('/api/users/:id', ...)\<close>\<close>

definition delete_user :: "env \<Rightarrow> string \<Rightarrow> world \<Rightarrow> response \<times> world" where
  "delete_user e id' s =
     (if \<not> ObjectId_isValid id' then
        (json 400 (JObj [(''error'', JStr ''Invalid user id'')]), s)
      else
        (case getUsersCollection e s of
           (Inl err, s1) \<Rightarrow> (errorHandler err, s1)
         | (Inr usersCollection, s1) \<Rightarrow>
             (case ObjectId_new id' of
                Inl err \<Rightarrow> (errorHandler err, s1)
              | Inr oid \<Rightarrow>
                  (case deleteOne e usersCollection (''_id'', JObjectId oid) s1 of
                     (Inl err, s2) \<Rightarrow> (errorHandler err, s2)
                   | (Inr deletedCount, s2) \<Rightarrow>
                       if deletedCount = 0 then
                         (json 404 (JObj [(''error'', JStr ''User not found'')]), s2)
                       else
                         (json 200 (JObj [(''message'', JStr ''User deleted successfully''),
                                          (''deletedId'', JStr id')]), s2)))))"

text \<open>\<^verbatim>\<open>app.get('/api/items', ...)\<close>\<close>

definition get_items :: "env \<Rightarrow> world \<Rightarrow> response \<times> world" where
  "get_items e s =
     (case getItemsCollection e s of
        (Inl err, s1) \<Rightarrow> (errorHandler err, s1)
      | (Inr itemsCollection, s1) \<Rightarrow>
          (case findSorted e itemsCollection (Some 100) s1 of
             (Inl err, s2) \<Rightarrow> (errorHandler err, s2)
           | (Inr items, s2) \<Rightarrow> (json 200 (JArr (map JObj items)), s2)))"

text \<open>\<^verbatim>\<open>app.get('/api/items/:id', ...)\<close>\<close>

definition get_item :: "env \<Rightarrow> string \<Rightarrow> world \<Rightarrow> response \<times> world" where
  "get_item e id' s =
     (if \<not> ObjectId_isValid id' then
        (json 400 (JObj [(''error'', JStr ''Invalid item id'')]), s)
      else
        (case getItemsCollection e s of
           (Inl err, s1) \<Rightarrow> (errorHandler err, s1)
         | (Inr itemsCollection, s1) \<Rightarrow>
             (case ObjectId_new id' of
                Inl err \<Rightarrow> (errorHandler err, s1)
              | Inr oid \<Rightarrow>
                  (case findOne e itemsCollection (''_id'', JObjectId oid) s1 of
                     (Inl err, s2) \<Rightarrow> (errorHandler err, s2)
                   | (Inr None, s2) \<Rightarrow>
                       (json 404 (JObj [(''error'', JStr ''Item not found'')]), s2)
                   | (Inr (Some item), s2) \<Rightarrow> (json 200 (JObj item), s2)))))"

text \<open>\<^verbatim>\<open>app.delete('/api/items/:id', ...)\<close>\<close>

definition delete_item :: "env \<Rightarrow> string \<Rightarrow> world \<Rightarrow> response \<times> world" where
  "delete_item e id' s =
     (if \<not> ObjectId_isValid id' then
        (json 400 (JObj [(''error'', JStr ''Invalid item id'')]), s)
      else
        (case getItemsCollection e s of
           (Inl err, s1) \<Rightarrow> (errorHandler err, s1)
         | (Inr itemsCollection, s1) \<Rightarrow>
             (case ObjectId_new id' of
                Inl err \<Rightarrow> (errorHandler err, s1)
              | Inr oid \<Rightarrow>
                  (case deleteOne e itemsCollection (''_id'', JObjectId oid) s1 of
                     (Inl err, s2) \<Rightarrow> (errorHandler err, s2)
                   | (Inr deletedCount, s2) \<Rightarrow>
                       if deletedCount = 0 then
                         (json 404 (JObj [(''error'', JStr ''Item not found'')]), s2)
                       else
                         (json 200 (JObj [(''message'', JStr ''Item deleted successfully''),
                                          (''deletedId'', JStr id')]), s2)))))"

text \<open>\<^verbatim>\<open>app.post('/api/items', ...)\<close>\<close>

definition post_items :: "env \<Rightarrow> jsval \<Rightarrow> world \<Rightarrow> response \<times> world" where
  "post_items e b s =
     (let req = js_or b (JObj []);
          name = get_field req ''name'';
          description = get_field req ''description'';
          price = get_field req ''price'';
          category = get_field req ''category'';
          image = get_field req ''image'';
          badge = get_field req ''badge'';
          badgeColor = get_field req ''badgeColor'';
          isLarge = get_field req ''isLarge'';
          tags = get_field req ''tags''
      in
      if \<not> truthy name \<or> \<not> truthy description \<or> \<not> is_number price then
        (json 400 (JObj [(''error'',
           JStr ''name, description, and numeric price are required'')]), s)
      else
        (let doc = [(''name'', name),
                    (''description'', description),
                    (''price'', price),
                    (''category'', js_or category (JStr ''Uncategorized'')),
                    (''image'', js_or image (JStr [])),
                    (''badge'', js_or badge JNull),
                    (''badgeColor'', js_or badgeColor JNull),
                    (''isLarge'', JBool (truthy isLarge)),
                    (''tags'', if isArray tags then tags else JArr []),
                    (''createdAt'', JDate (now e))]
         in
         case getItemsCollection e s of
           (Inl err, s1) \<Rightarrow> (errorHandler err, s1)
         | (Inr itemsCollection, s1) \<Rightarrow>
             (case insertOne e itemsCollection doc s1 of
                (Inl err, s2) \<Rightarrow> (errorHandler err, s2)
              | (Inr insertedId, s2) \<Rightarrow>
                  (json 201 (JObj ((''_id'', JObjectId insertedId) # doc)), s2))))"

text \<open>
  Route dispatch, and a run of requests served one after the other. The routes that never
  reach the store (\<^verbatim>\<open>/\<close>, \<^verbatim>\<open>/api/health\<close>, the static files) are left out.
\<close>

datatype request =
    POST_users jsval
  | GET_users
  | GET_user string
  | DELETE_user string
  | GET_items
  | GET_item string
  | DELETE_item string
  | POST_items jsval

fun dispatch :: "env \<Rightarrow> request \<Rightarrow> world \<Rightarrow> response \<times> world" where
  "dispatch e (POST_users b) s = post_users e b s"
| "dispatch e GET_users s = get_users e s"
| "dispatch e (GET_user id') s = get_user e id' s"
| "dispatch e (DELETE_user id') s = delete_user e id' s"
| "dispatch e GET_items s = get_items e s"
| "dispatch e (GET_item id') s = get_item e id' s"
| "dispatch e (DELETE_item id') s = delete_item e id' s"
| "dispatch e (POST_items b) s = post_items e b s"

fun serve :: "(env \<times> request) list \<Rightarrow> world \<Rightarrow> world" where
  "serve [] s = s"
| "serve ((e, r) # rs) s = serve rs (snd (dispatch e r s))"

section \<open>The CORS allow-list\<close>

text \<open>
  \<^verbatim>\<open>
  const CLIENT_URL = process.env.CLIENT_URL || 'http://localhost:5173';
  const allowedOrigins = (CLIENT_URL || '').split(',').map((o) => o.trim()).filter(Boolean);
  if (allowedOrigins.length === 0) {
    allowedOrigins.push('http://localhost:3000', 'http://localhost:5173');
  }
  \<close>
  A string is the list of its code units, taken below 256; of the white space
  \<^verbatim>\<open>trim\<close> strips, that leaves tab, line feed, vertical tab, form feed, carriage
  return, space and the no-break space.
\<close>

definition CLIENT_URL :: "string option \<Rightarrow> string" where
  "CLIENT_URL v =
     (case v of
        None \<Rightarrow> ''http://localhost:5173''
      | Some u \<Rightarrow> if u \<noteq> [] then u else ''http://localhost:5173'')"

fun split_comma :: "string \<Rightarrow> string list" where
  "split_comma [] = [[]]"
| "split_comma (c # cs) =
     (if c = CHR '','' then [] # split_comma cs
      else (case split_comma cs of
              [] \<Rightarrow> [[c]]
            | seg # segs \<Rightarrow> (c # seg) # segs))"

definition isWhiteSpace :: "char \<Rightarrow> bool" where
  "isWhiteSpace c = ((of_char c :: nat) \<in> set [9, 10, 11, 12, 13, 32, 160])"

definition trim :: "string \<Rightarrow> string" where
  "trim u = rev (dropWhile isWhiteSpace (rev (dropWhile isWhiteSpace u)))"

definition allowedOrigins :: "string \<Rightarrow> string list" where
  "allowedOrigins url =
     (let origins = filter (\<lambda>origin. origin \<noteq> []) (map trim (split_comma (if url \<noteq> [] then url else [])))
      in
      if length origins = 0 then origins @ [''http://localhost:3000'', ''http://localhost:5173'']
      else origins)"

section \<open>Vocabulary of the statements\<close>

text \<open>The value a create handler reads for the field \<open>k\<close> of the body \<open>b\<close>.\<close>

definition bodyField :: "jsval \<Rightarrow> string \<Rightarrow> jsval" where
  "bodyField b k = get_field (js_or b (JObj [])) k"

text \<open>The connection is there, or this request's \<^verbatim>\<open>client.connect()\<close> resolves.\<close>

definition connectable :: "env \<Rightarrow> world \<Rightarrow> bool" where
  "connectable e s = (isConnected s \<or> driverOk e ClientConnect)"

text \<open>No document of the collection \<open>c\<close> has the identifier \<open>i\<close>.\<close>

definition idFree :: "world \<Rightarrow> string \<Rightarrow> objectid \<Rightarrow> bool" where
  "idFree s c i = (JObjectId i \<notin> set (map (\<lambda>d. getProp d ''_id'') (db s c)))"

text \<open>The store's unique index on \<^verbatim>\<open>_id\<close>, as a property of a collection.\<close>

definition uniqueIds :: "document list \<Rightarrow> bool" where
  "uniqueIds ds = distinct (map (\<lambda>d. getProp d ''_id'') ds)"

text \<open>How often \<^verbatim>\<open>client.connect()\<close> has been called.\<close>

definition connects :: "world \<Rightarrow> nat" where
  "connects s = length (filter (\<lambda>c. c = ClientConnect) (calls s))"

text \<open>
  The process at start (\<^verbatim>\<open>let isConnected = false\<close>) in front of an empty store,
  and two environments for examples: a store that answers every call and one that
  answers none.
\<close>

definition initial :: world where
  "initial = \<lparr>isConnected = False, calls = [], db = (\<lambda>c. [])\<rparr>"

definition env_up :: "int \<Rightarrow> objectid \<Rightarrow> env" where
  "env_up t i = \<lparr>now = t, newId = i, driverOk = (\<lambda>c. True)\<rparr>"

definition env_down :: "int \<Rightarrow> objectid \<Rightarrow> env" where
  "env_down t i = \<lparr>now = t, newId = i, driverOk = (\<lambda>c. False)\<rparr>"

text \<open>The states a run of requests passes through, the first one included.\<close>

fun trace :: "(env \<times> request) list \<Rightarrow> world \<Rightarrow> world list" where
  "trace [] s = [s]"
| "trace ((e, r) # rs) s = s # trace rs (snd (dispatch e r s))"

text \<open>\<^verbatim>\<open>segments.join(',')\<close>, the inverse that pins \<^verbatim>\<open>split(',')\<close> down.\<close>

fun join_comma :: "string list \<Rightarrow> string" where
  "join_comma [] = []"
| "join_comma [u] = u"
| "join_comma (u # v # vs) = u @ CHR '','' # join_comma (v # vs)"

text \<open>What the create handlers check of a body before they touch the store.\<close>

definition validItem :: "jsval \<Rightarrow> bool" where
  "validItem b = (truthy (bodyField b ''name'') \<and> truthy (bodyField b ''description'')
                  \<and> is_number (bodyField b ''price''))"


text \<open>
  The store takes an insert into the collection \<open>c\<close>: it can be reached, the call
  resolves, and the generated identifier is not in use.
\<close>

definition accepts :: "env \<Rightarrow> string \<Rightarrow> world \<Rightarrow> bool" where
  "accepts e c s = (connectable e s \<and> driverOk e (InsertOne c) \<and> idFree s c (newId e))"

text \<open>The state after a \<^verbatim>\<open>connectToMongo()\<close> that returned.\<close>

definition afterConnect :: "world \<Rightarrow> world" where
  "afterConnect s =
     (if isConnected s then s else s\<lparr>calls := calls s @ [ClientConnect], isConnected := True\<rparr>)"

text \<open>Example bodies and an example store.\<close>

definition tacos :: jsval where
  "tacos = JObj [(''name'', JStr ''Tacos''), (''description'', JStr ''Corn tortilla''),
                 (''price'', JNum (Finite (17 / 2)))]"

definition loaded :: jsval where
  "loaded = JObj [(''name'', JStr ''Tacos''), (''description'', JStr ''Corn tortilla''),
                  (''price'', JNum (Finite (17 / 2))), (''category'', JStr []),
                  (''isLarge'', JNum (Finite 1)), (''calories'', JNum (Finite 250))]"

definition plain :: jsval where
  "plain = JObj [(''name'', JStr ''Soup''), (''description'', JStr ''Of the day''),
                 (''price'', JNum (Finite 4)), (''category'', JStr []), (''image'', JNum (Finite 0)),
                 (''badge'', JBool False), (''badgeColor'', JNull), (''tags'', JStr ''hot'')]"

definition ann :: jsval where
  "ann = JObj [(''email'', JStr ''ann@example.com''), (''name'', JStr ''Ann''), (''role'', JStr [])]"



definition pricey :: jsval where
  "pricey = JObj [(''name'', JStr ''Truffle''), (''description'', JStr ''Rare''),
                  (''price'', JNum PosInfinity)]"

definition stocked :: world where
  "stocked = \<lparr>isConnected = True, calls = [ClientConnect],
     db = (\<lambda>c. if c = ''items'' then
                  [[(''_id'', JObjectId 1), (''name'', JStr ''Soup''), (''createdAt'', JDate 10)],
                   [(''_id'', JObjectId 2), (''name'', JStr ''Tacos''), (''createdAt'', JDate 30)],
                   [(''_id'', JObjectId 3), (''name'', JStr ''Rice''), (''createdAt'', JDate 20)]]
                else if c = ''users'' then
                  [[(''_id'', JObjectId 0x507f1f77bcf86cd799439011), (''email'', JStr ''ann@example.com''),
                    (''createdAt'', JDate 5)],
                   [(''_id'', JObjectId 4), (''email'', JStr ''bob@example.com''), (''createdAt'', JDate 7)]]
                else [])\<rparr>"

section \<open>Identifiers: printing and parsing\<close>

lemma toHex_numeral:
  "toHex (numeral k) n = toHex (pred_numeral k) (n div 16) @ [hexDigit (n mod 16)]"
  using toHex.simps(2)[of "pred_numeral k" n] by (simp only: numeral_eq_Suc)

lemma hexVal_hexDigit: "d < 16 \<Longrightarrow> hexVal (hexDigit d) = Some d"
proof -
  assume "d < 16"
  then have "d = 0 \<or> d = 1 \<or> d = 2 \<or> d = 3 \<or> d = 4 \<or> d = 5 \<or> d = 6 \<or> d = 7
      \<or> d = 8 \<or> d = 9 \<or> d = 10 \<or> d = 11 \<or> d = 12 \<or> d = 13 \<or> d = 14 \<or> d = 15"
    by arith
  then show ?thesis
    by (elim disjE) (simp_all add: hexVal_def hexDigit_def)
qed

lemma fromHex_append:
  "fromHex acc (xs @ ys) = (case fromHex acc xs of None \<Rightarrow> None | Some a \<Rightarrow> fromHex a ys)"
  by (induction xs arbitrary: acc) (simp_all split: option.splits)

lemma fromHex_toHex: "fromHex acc (toHex k n) = Some (acc * 16 ^ k + n mod 16 ^ k)"
proof (induction k arbitrary: n)
  case 0
  then show ?case by simp
next
  case (Suc k)
  have "n mod (16 * 16 ^ k) = 16 * (n div 16 mod 16 ^ k) + n mod 16"
    by (simp add: mod_mult2_eq)
  with Suc show ?case
    by (simp add: fromHex_append hexVal_hexDigit algebra_simps)
qed

lemma length_toHex: "length (toHex k n) = k"
  by (induction k arbitrary: n) simp_all

text \<open>Parsing the printed form of an identifier gives the identifier back.\<close>

lemma ObjectId_new_toHexString: "ObjectId_new (toHexString i) = Inr i"
proof -
  have "unat i < 2 ^ 96"
    using unsigned_less [of i] by simp
  then have "unat i mod 16 ^ 24 = unat i"
    by simp
  then show ?thesis
    by (simp add: ObjectId_new_def toHexString_def length_toHex fromHex_toHex)
qed

lemma ObjectId_isValid_toHexString: "ObjectId_isValid (toHexString i)"
  by (simp add: ObjectId_isValid_def ObjectId_new_toHexString)

text \<open>The validity check is the 24 hexadecimal digits of the driver's documentation.\<close>

lemma ObjectId_isValid_iff:
  "ObjectId_isValid u \<longleftrightarrow> length u = 24 \<and> list_all (\<lambda>c. hexVal c \<noteq> None) u"
proof -
  have "(fromHex acc u \<noteq> None) = list_all (\<lambda>c. hexVal c \<noteq> None) u" for acc
    by (induction u arbitrary: acc) (auto split: option.splits)
  from this [of 0] show ?thesis
    by (auto simp: ObjectId_isValid_def ObjectId_new_def split: option.splits)
qed

lemma ObjectId_new_valid: "ObjectId_isValid u \<Longrightarrow> \<exists>i. ObjectId_new u = Inr i"
  by (cases "ObjectId_new u") (simp_all add: ObjectId_isValid_def)

section \<open>Validation comes before the store\<close>

text \<open>
  Claim C3. A user-creation body whose \<^verbatim>\<open>email\<close> or \<^verbatim>\<open>name\<close> is missing (or
  falsy), and an item-creation body whose \<^verbatim>\<open>name\<close> or \<^verbatim>\<open>description\<close> is missing
  (or falsy) or whose \<^verbatim>\<open>price\<close> is not a number, is answered 400, and the state is
  left as it was: no driver call is made (the log of calls is part of the state), no
  record is persisted, and the answer does not depend on the store being reachable.
\<close>

theorem C3_invalid_creation_is_400_without_store_access:
  "(\<not> truthy (bodyField b ''email'') \<or> \<not> truthy (bodyField b ''name'') \<longrightarrow>
      post_users e b s =
        (json 400 (JObj [(''error'', JStr ''email and name are required'')]), s))
   \<and> (\<not> truthy (bodyField b ''name'') \<or> \<not> truthy (bodyField b ''description'')
        \<or> \<not> is_number (bodyField b ''price'') \<longrightarrow>
      post_items e b s =
        (json 400 (JObj [(''error'',
           JStr ''name, description, and numeric price are required'')]), s))"
  by (simp add: post_users_def post_items_def bodyField_def Let_def)

theorem C3_witness:
  "post_users (env_down 0 1) (JObj [(''name'', JStr ''Ann'')]) initial
     = (json 400 (JObj [(''error'', JStr ''email and name are required'')]), initial)
   \<and> post_items (env_down 0 1)
        (JObj [(''name'', JStr ''Tacos''), (''description'', JStr ''Corn tortilla''),
               (''price'', JStr ''8.5'')]) initial
     = (json 400 (JObj [(''error'',
           JStr ''name, description, and numeric price are required'')]), initial)"
  using
    C3_invalid_creation_is_400_without_store_access
      [of "JObj [(''name'', JStr ''Ann'')]" "env_down 0 1" initial]
    C3_invalid_creation_is_400_without_store_access
      [of "JObj [(''name'', JStr ''Tacos''), (''description'', JStr ''Corn tortilla''),
                 (''price'', JStr ''8.5'')]" "env_down 0 1" initial]
  by (simp add: bodyField_def js_or_def getProp_def)

text \<open>
  Claim C4. An \<^verbatim>\<open>:id\<close> that is not a valid ObjectId is answered 400 by the get and
  the delete handler of users and of items, whatever the store holds and whether or not
  it is reachable; the state is left as it was, so no connect, lookup or delete was
  attempted.
\<close>

theorem C4_malformed_id_is_400_without_store_access:
  "\<not> ObjectId_isValid id' \<Longrightarrow>
     get_user e id' s = (json 400 (JObj [(''error'', JStr ''Invalid user id'')]), s)
   \<and> delete_user e id' s = (json 400 (JObj [(''error'', JStr ''Invalid user id'')]), s)
   \<and> get_item e id' s = (json 400 (JObj [(''error'', JStr ''Invalid item id'')]), s)
   \<and> delete_item e id' s = (json 400 (JObj [(''error'', JStr ''Invalid item id'')]), s)"
  by (simp add: get_user_def delete_user_def get_item_def delete_item_def)

theorem C4_witness:
  "\<not> ObjectId_isValid ''not-an-id''
   \<and> get_user (env_down 0 1) ''not-an-id'' initial
       = (json 400 (JObj [(''error'', JStr ''Invalid user id'')]), initial)
   \<and> delete_user (env_down 0 1) ''not-an-id'' initial
       = (json 400 (JObj [(''error'', JStr ''Invalid user id'')]), initial)
   \<and> get_item (env_down 0 1) ''not-an-id'' initial
       = (json 400 (JObj [(''error'', JStr ''Invalid item id'')]), initial)
   \<and> delete_item (env_down 0 1) ''not-an-id'' initial
       = (json 400 (JObj [(''error'', JStr ''Invalid item id'')]), initial)"
proof -
  have bad: "\<not> ObjectId_isValid ''not-an-id''"
    by (simp add: ObjectId_isValid_iff)
  from bad C4_malformed_id_is_400_without_store_access [OF bad, of "env_down 0 1" initial]
  show ?thesis by simp
qed

section \<open>The connection flag\<close>

lemma dispatch_keeps_connected:
  "isConnected s \<Longrightarrow> isConnected (snd (dispatch e r s)) \<and> connects (snd (dispatch e r s)) = connects s"
  apply (cases r)
  apply (auto simp: post_users_def get_users_def get_user_def delete_user_def get_items_def
      get_item_def delete_item_def post_items_def getUsersCollection_def getItemsCollection_def
      connectToMongo_def findOne_def insertOne_def deleteOne_def findSorted_def connects_def Let_def
      split: prod.splits sum.splits option.splits if_splits)
  done

lemma trace_keeps_connected:
  "isConnected s \<Longrightarrow> list_all (\<lambda>s'. isConnected s' \<and> connects s' = connects s) (trace rs s)"
proof (induction rs arbitrary: s)
  case Nil
  then show ?case by simp
next
  case (Cons a rs)
  obtain e r where a: "a = (e, r)" by (cases a)
  from Cons.prems have *: "isConnected (snd (dispatch e r s)) \<and> connects (snd (dispatch e r s)) = connects s"
    by (rule dispatch_keeps_connected)
  with Cons.IH [of "snd (dispatch e r s)"] a Cons.prems show ?case by simp
qed

lemma trace_flag_monotone: "sorted (map isConnected (trace rs s))"
proof (induction rs arbitrary: s)
  case Nil
  then show ?case by simp
next
  case (Cons a rs)
  obtain e r where a: "a = (e, r)" by (cases a)
  show ?case
  proof (cases "isConnected s")
    case True
    then have "isConnected (snd (dispatch e r s))"
      by (simp add: dispatch_keeps_connected)
    from trace_keeps_connected [OF this, of rs] Cons.IH [of "snd (dispatch e r s)"] a True
    show ?thesis by (auto simp: list_all_iff)
  next
    case False
    with Cons.IH [of "snd (dispatch e r s)"] a show ?thesis by simp
  qed
qed

text \<open>
  Claim C8. \<^verbatim>\<open>connectToMongo\<close> calls \<^verbatim>\<open>client.connect()\<close> only when the flag is
  not set: with the flag set it is a no-op that returns at once; with the flag unset it
  makes exactly one call, and sets the flag exactly when that call resolves. A call that
  returns normally leaves the flag set, and the next call (under any environment) changes
  nothing. Over any run of requests served one after the other the flag never goes back
  from set to unset (the flags of the states passed through are sorted, \<open>False\<close> before
  \<open>True\<close>), so it changes at most once; and from a state with the flag set no request
  calls \<^verbatim>\<open>client.connect()\<close> again.
\<close>

theorem C8_connect_once_and_never_reverts:
  "(isConnected s \<longrightarrow> connectToMongo e s = (Inr (), s))
   \<and> (\<not> isConnected s \<longrightarrow>
        calls (snd (connectToMongo e s)) = calls s @ [ClientConnect]
        \<and> isConnected (snd (connectToMongo e s)) = driverOk e ClientConnect
        \<and> (fst (connectToMongo e s) = Inr ()) = driverOk e ClientConnect)
   \<and> (fst (connectToMongo e s) = Inr () \<longrightarrow>
        isConnected (snd (connectToMongo e s))
        \<and> connectToMongo e' (snd (connectToMongo e s)) = (Inr (), snd (connectToMongo e s)))
   \<and> sorted (map isConnected (trace rs s))
   \<and> (isConnected s \<longrightarrow>
        list_all (\<lambda>s'. isConnected s' \<and> connects s' = connects s) (trace rs s))"
proof -
  have "(isConnected s \<longrightarrow> connectToMongo e s = (Inr (), s))
   \<and> (\<not> isConnected s \<longrightarrow>
        calls (snd (connectToMongo e s)) = calls s @ [ClientConnect]
        \<and> isConnected (snd (connectToMongo e s)) = driverOk e ClientConnect
        \<and> (fst (connectToMongo e s) = Inr ()) = driverOk e ClientConnect)
   \<and> (fst (connectToMongo e s) = Inr () \<longrightarrow>
        isConnected (snd (connectToMongo e s))
        \<and> connectToMongo e' (snd (connectToMongo e s)) = (Inr (), snd (connectToMongo e s)))"
    by (simp add: connectToMongo_def Let_def)
  with trace_flag_monotone [of rs s] trace_keeps_connected [of s rs] show ?thesis
    by blast
qed

theorem C8_witness:
  "fst (connectToMongo (env_up 0 1) initial) = Inr ()
   \<and> isConnected (snd (connectToMongo (env_up 0 1) initial))
   \<and> calls (snd (connectToMongo (env_up 0 1) initial)) = [ClientConnect]
   \<and> connectToMongo (env_down 5 2) (snd (connectToMongo (env_up 0 1) initial))
       = (Inr (), snd (connectToMongo (env_up 0 1) initial))
   \<and> connectToMongo (env_down 5 2) (initial\<lparr>isConnected := True\<rparr>)
       = (Inr (), initial\<lparr>isConnected := True\<rparr>)
   \<and> sorted (map isConnected
       (trace [(env_down 0 1, GET_users), (env_up 1 1, GET_items), (env_down 2 1, GET_users)]
          initial))
   \<and> list_all (\<lambda>s'. isConnected s' \<and> connects s' = 0)
       (trace [(env_down 0 1, GET_users), (env_up 1 1, GET_items)]
          (initial\<lparr>isConnected := True\<rparr>))"
  using
    C8_connect_once_and_never_reverts
      [of initial "env_up 0 1" "env_down 5 2"
          "[(env_down 0 1, GET_users), (env_up 1 1, GET_items), (env_down 2 1, GET_users)]"]
    C8_connect_once_and_never_reverts
      [of "initial\<lparr>isConnected := True\<rparr>" "env_down 5 2" "env_down 5 2"
          "[(env_down 0 1, GET_users), (env_up 1 1, GET_items)]"]
  by (simp add: initial_def env_up_def connects_def)

section \<open>The allow-list: splitting and trimming\<close>

lemma split_comma_not_Nil: "split_comma u \<noteq> []"
  by (induction u) (auto split: list.splits)

lemma join_split_comma: "join_comma (split_comma u) = u"
proof (induction u)
  case Nil
  then show ?case by simp
next
  case (Cons c u)
  then show ?case
    using split_comma_not_Nil [of u]
    by (cases "split_comma u"; cases "tl (split_comma u)") auto
qed

lemma split_comma_no_comma: "list_all (\<lambda>seg. CHR '','' \<notin> set seg) (split_comma u)"
  by (induction u) (auto split: list.splits)

lemma trim_no_outer_space:
  "trim u = [] \<or> \<not> isWhiteSpace (hd (trim u)) \<and> \<not> isWhiteSpace (last (trim u))"
proof -
  define v where "v = dropWhile isWhiteSpace u"
  define w where "w = dropWhile isWhiteSpace (rev v)"
  have t: "trim u = rev w" by (simp add: trim_def v_def w_def)
  show ?thesis
  proof (cases "w = []")
    case True
    with t show ?thesis by simp
  next
    case False
    then have 1: "\<not> isWhiteSpace (hd w)"
      unfolding w_def by (metis hd_dropWhile)
    from False have "rev v \<noteq> []" by (auto simp: w_def)
    then have vne: "v \<noteq> []" by simp
    then have "\<not> isWhiteSpace (hd v)"
      unfolding v_def by (metis hd_dropWhile)
    have "\<exists>ys. rev v = ys @ w"
      unfolding w_def by (metis takeWhile_dropWhile_id)
    then obtain ys where ys: "rev v = ys @ w" by blast
    then have "v = rev w @ rev ys" by (metis rev_append rev_rev_ident)
    with False have "hd v = hd (rev w)" by simp
    with \<open>\<not> isWhiteSpace (hd v)\<close> have 2: "\<not> isWhiteSpace (hd (rev w))" by simp
    from False have "last (rev w) = hd w" by (simp add: last_rev)
    with 1 2 t show ?thesis by simp
  qed
qed

lemma trim_inside:
  "\<exists>pre suf. u = pre @ trim u @ suf \<and> list_all isWhiteSpace pre \<and> list_all isWhiteSpace suf"
proof -
  define v where "v = dropWhile isWhiteSpace u"
  define w where "w = dropWhile isWhiteSpace (rev v)"
  define pre where "pre = takeWhile isWhiteSpace u"
  define suf where "suf = rev (takeWhile isWhiteSpace (rev v))"
  have t: "trim u = rev w" by (simp add: trim_def v_def w_def)
  have "rev suf @ w = rev v" by (simp add: w_def suf_def)
  then have "rev (rev suf @ w) = v" by simp
  then have v: "rev w @ suf = v" by simp
  have "pre @ v = u" by (simp add: v_def pre_def)
  with v have "pre @ rev w @ suf = u" by simp
  with t have "u = pre @ trim u @ suf" by simp
  moreover have "list_all isWhiteSpace pre"
    unfolding pre_def list_all_iff by (metis set_takeWhileD)
  moreover have "list_all isWhiteSpace suf"
    unfolding suf_def list_all_iff set_rev by (metis set_takeWhileD)
  ultimately show ?thesis by blast
qed

lemma allowed_entries_trimmed:
  "list_all (\<lambda>origin. origin \<noteq> [] \<and> \<not> isWhiteSpace (hd origin) \<and> \<not> isWhiteSpace (last origin)
       \<and> (\<exists>seg pre suf. seg \<in> set (split_comma url) \<and> seg = pre @ origin @ suf
             \<and> list_all isWhiteSpace pre \<and> list_all isWhiteSpace suf))
     (filter (\<lambda>x. x \<noteq> []) (map trim (split_comma url)))"
proof -
  have "x \<noteq> [] \<and> \<not> isWhiteSpace (hd x) \<and> \<not> isWhiteSpace (last x)
       \<and> (\<exists>seg pre suf. seg \<in> set (split_comma url) \<and> seg = pre @ x @ suf
             \<and> list_all isWhiteSpace pre \<and> list_all isWhiteSpace suf)"
    if x: "x \<in> set (filter (\<lambda>x. x \<noteq> []) (map trim (split_comma url)))" for x
  proof -
    from x obtain seg where seg: "seg \<in> set (split_comma url)" "x = trim seg" "x \<noteq> []"
      by auto
    from trim_inside [of seg] obtain pre suf where
      "seg = pre @ trim seg @ suf" "list_all isWhiteSpace pre" "list_all isWhiteSpace suf"
      by blast
    with seg trim_no_outer_space [of seg] show ?thesis by blast
  qed
  then show ?thesis
    unfolding list_all_iff by blast
qed

text \<open>
  \<^verbatim>\<open>CLIENT_URL\<close> is never empty, so \<^verbatim>\<open>CLIENT_URL || ''\<close> is \<^verbatim>\<open>CLIENT_URL\<close>; with
  the variable unset or empty, the allow-list is the one origin \<^verbatim>\<open>CLIENT_URL\<close>
  defaults to.
\<close>

lemma CLIENT_URL_not_empty: "CLIENT_URL v \<noteq> []"
  by (simp add: CLIENT_URL_def split: option.splits)

lemma allowedOrigins_unset:
  "allowedOrigins (CLIENT_URL None) = [''http://localhost:5173'']"
  "allowedOrigins (CLIENT_URL (Some [])) = [''http://localhost:5173'']"
  by (simp_all add: CLIENT_URL_def allowedOrigins_def trim_def isWhiteSpace_def)

text \<open>
  Claim C9. The allow-list is made from the configured string \<^verbatim>\<open>CLIENT_URL\<close> by
  splitting it at the commas (the segments hold no comma and joined with commas give the
  string back), trimming each segment (an entry is its segment without the white space
  around it) and dropping the empty results. When nothing is left, the allow-list is the
  pair \<^verbatim>\<open>http://localhost:3000\<close>, \<^verbatim>\<open>http://localhost:5173\<close>; otherwise it is the list
  of entries.
\<close>

theorem C9_allow_list_split_trim_filter_or_default:
  "(filter (\<lambda>x. x \<noteq> []) (map trim (split_comma url)) = [] \<longrightarrow>
      allowedOrigins url = [''http://localhost:3000'', ''http://localhost:5173''])
   \<and> (filter (\<lambda>x. x \<noteq> []) (map trim (split_comma url)) \<noteq> [] \<longrightarrow>
      allowedOrigins url = filter (\<lambda>x. x \<noteq> []) (map trim (split_comma url)))
   \<and> join_comma (split_comma url) = url
   \<and> list_all (\<lambda>seg. CHR '','' \<notin> set seg) (split_comma url)
   \<and> list_all (\<lambda>origin. origin \<noteq> [] \<and> \<not> isWhiteSpace (hd origin) \<and> \<not> isWhiteSpace (last origin)
       \<and> (\<exists>seg pre suf. seg \<in> set (split_comma url) \<and> seg = pre @ origin @ suf
             \<and> list_all isWhiteSpace pre \<and> list_all isWhiteSpace suf))
     (filter (\<lambda>x. x \<noteq> []) (map trim (split_comma url)))"
proof -
  define origins where "origins = filter (\<lambda>x. x \<noteq> []) (map trim (split_comma url))"
  have e: "(if url \<noteq> [] then url else []) = url" by simp
  have "allowedOrigins url =
      (if length origins = 0 then origins @ [''http://localhost:3000'', ''http://localhost:5173'']
       else origins)"
    unfolding allowedOrigins_def Let_def e origins_def by (rule refl)
  then have "allowedOrigins url =
      (if origins = [] then [''http://localhost:3000'', ''http://localhost:5173''] else origins)"
    by (cases origins) simp_all
  then have "(origins = [] \<longrightarrow>
        allowedOrigins url = [''http://localhost:3000'', ''http://localhost:5173''])
      \<and> (origins \<noteq> [] \<longrightarrow> allowedOrigins url = origins)
      \<and> join_comma (split_comma url) = url
      \<and> list_all (\<lambda>seg. CHR '','' \<notin> set seg) (split_comma url)"
    using join_split_comma [of url] split_comma_no_comma [of url] by simp
  then have "(filter (\<lambda>x. x \<noteq> []) (map trim (split_comma url)) = [] \<longrightarrow>
      allowedOrigins url = [''http://localhost:3000'', ''http://localhost:5173''])
   \<and> (filter (\<lambda>x. x \<noteq> []) (map trim (split_comma url)) \<noteq> [] \<longrightarrow>
      allowedOrigins url = filter (\<lambda>x. x \<noteq> []) (map trim (split_comma url)))
   \<and> join_comma (split_comma url) = url
   \<and> list_all (\<lambda>seg. CHR '','' \<notin> set seg) (split_comma url)"
    unfolding origins_def .
  with allowed_entries_trimmed [of url] show ?thesis
    by (intro conjI) (elim conjE, assumption)+
qed

theorem C9_witness:
  "allowedOrigins '' ,  '' = [''http://localhost:3000'', ''http://localhost:5173'']
   \<and> allowedOrigins ''http://a.example, http://b.example ,''
       = [''http://a.example'', ''http://b.example'']"
  using
    C9_allow_list_split_trim_filter_or_default [of "'' ,  ''"]
    C9_allow_list_split_trim_filter_or_default [of "''http://a.example, http://b.example ,''"]
  by (simp add: trim_def isWhiteSpace_def)

section \<open>The store operations\<close>

lemma connectToMongo_ok:
  "connectable e s \<Longrightarrow> connectToMongo e s = (Inr (), afterConnect s)"
  by (auto simp: connectToMongo_def connectable_def afterConnect_def Let_def)

lemma afterConnect_simps [simp]:
  "db (afterConnect s) = db s" "isConnected (afterConnect s)"
  by (simp_all add: afterConnect_def)

lemma getItemsCollection_ok:
  "connectable e s \<Longrightarrow> getItemsCollection e s = (Inr ''items'', afterConnect s)"
  by (simp add: getItemsCollection_def connectToMongo_ok)

lemma getUsersCollection_ok:
  "connectable e s \<Longrightarrow> getUsersCollection e s = (Inr ''users'', afterConnect s)"
  by (simp add: getUsersCollection_def connectToMongo_ok)

lemma connectable_connected: "isConnected s \<Longrightarrow> connectable e s"
  by (simp add: connectable_def)

lemma afterConnect_connected: "isConnected s \<Longrightarrow> afterConnect s = s"
  by (simp add: afterConnect_def)

lemma find_matches_None:
  "(find (matches (k, v)) ds = None) = (v \<notin> set (map (\<lambda>d. getProp d k) ds))"
  by (induction ds) (auto simp: matches_def)

lemma find_append_list:
  "find P (xs @ ys) = (case find P xs of None \<Rightarrow> find P ys | Some x \<Rightarrow> Some x)"
  by (induction xs) simp_all

lemma filter_other_ids:
  "v \<notin> set (map f ds) \<Longrightarrow> filter (\<lambda>d. f d \<noteq> v) ds = ds"
  by (induction ds) auto


lemma deleteFirst_unique:
  "uniqueIds ds \<Longrightarrow>
     deleteFirst (matches (''_id'', v)) ds = filter (\<lambda>d. getProp d ''_id'' \<noteq> v) ds"
proof (induction ds)
  case Nil
  then show ?case by simp
next
  case (Cons d ds)
  then show ?case
    by (auto simp: uniqueIds_def matches_def filter_other_ids)
qed

lemma length_deleteFirst:
  "find P ds \<noteq> None \<Longrightarrow> length (deleteFirst P ds) + 1 = length ds"
  by (induction ds) (auto split: if_splits)

lemma find_after_delete:
  "find (matches (''_id'', v)) (filter (\<lambda>d. getProp d ''_id'' \<noteq> v) ds) = None"
  by (induction ds) (auto simp: matches_def)

lemma set_deleteFirst: "set (deleteFirst P ds) \<subseteq> set ds"
  by (induction ds) auto

lemma uniqueIds_deleteFirst: "uniqueIds ds \<Longrightarrow> uniqueIds (deleteFirst P ds)"
proof (induction ds)
  case Nil
  then show ?case by simp
next
  case (Cons d ds)
  then show ?case
    using set_deleteFirst [of P ds] by (auto simp: uniqueIds_def)
qed

text \<open>
  The unique index on \<^verbatim>\<open>_id\<close> is kept by every request, so it holds in every state
  reached from a store that has it.
\<close>

lemma dispatch_keeps_uniqueIds:
  assumes "uniqueIds (db s ''users'')" "uniqueIds (db s ''items'')"
  shows "uniqueIds (db (snd (dispatch e r s)) ''users'')
       \<and> uniqueIds (db (snd (dispatch e r s)) ''items'')"
  using assms
  apply (cases r)
  apply (auto simp: post_users_def get_users_def get_user_def delete_user_def get_items_def
      get_item_def delete_item_def post_items_def getUsersCollection_def getItemsCollection_def
      connectToMongo_def findOne_def insertOne_def deleteOne_def findSorted_def Let_def
      uniqueIds_deleteFirst
      split: prod.splits sum.splits option.splits if_splits)
  apply (auto simp: uniqueIds_def getProp_def)
  done

lemma serve_keeps_uniqueIds:
  "uniqueIds (db s ''users'') \<Longrightarrow> uniqueIds (db s ''items'') \<Longrightarrow>
     uniqueIds (db (serve rs s) ''users'') \<and> uniqueIds (db (serve rs s) ''items'')"
proof (induction rs arbitrary: s)
  case Nil
  then show ?case by simp
next
  case (Cons a rs)
  obtain e r where a: "a = (e, r)" by (cases a)
  from dispatch_keeps_uniqueIds [OF Cons.prems, of e r] Cons.IH [of "snd (dispatch e r s)"] a
  show ?case by simp
qed

text \<open>The sort of \<^verbatim>\<open>find().sort({ createdAt: -1 })\<close>: newest first, nothing lost.\<close>

lemma sortDescending_sorted:
  "sorted_wrt (\<lambda>a b. createdAtKey b \<le> createdAtKey a) (sortDescending ds)"
proof -
  have "sorted (map createdAtKey (sort_key createdAtKey (rev ds)))"
    by (rule sorted_sort_key)
  then have "sorted_wrt (\<lambda>a b. createdAtKey a \<le> createdAtKey b) (sort_key createdAtKey (rev ds))"
    by (simp add: sorted_wrt_map)
  then show ?thesis
    by (simp add: sortDescending_def sorted_wrt_rev)
qed

lemma mset_sortDescending: "mset (sortDescending ds) = mset ds"
  by (simp add: sortDescending_def)

text \<open>What the handlers answer when the store does.\<close>

lemma post_items_created:
  assumes "validItem b" "accepts e ''items'' s"
  shows "post_items e b s =
     (json 201 (JObj
        [(''_id'', JObjectId (newId e)),
         (''name'', bodyField b ''name''),
         (''description'', bodyField b ''description''),
         (''price'', bodyField b ''price''),
         (''category'', js_or (bodyField b ''category'') (JStr ''Uncategorized'')),
         (''image'', js_or (bodyField b ''image'') (JStr [])),
         (''badge'', js_or (bodyField b ''badge'') JNull),
         (''badgeColor'', js_or (bodyField b ''badgeColor'') JNull),
         (''isLarge'', JBool (truthy (bodyField b ''isLarge''))),
         (''tags'', if isArray (bodyField b ''tags'') then bodyField b ''tags'' else JArr []),
         (''createdAt'', JDate (now e))]),
      (afterConnect s)
        \<lparr>calls := calls (afterConnect s) @ [InsertOne ''items''],
         db := (db s)(''items'' := db s ''items'' @
           [[(''_id'', JObjectId (newId e)),
             (''name'', bodyField b ''name''),
             (''description'', bodyField b ''description''),
             (''price'', bodyField b ''price''),
             (''category'', js_or (bodyField b ''category'') (JStr ''Uncategorized'')),
             (''image'', js_or (bodyField b ''image'') (JStr [])),
             (''badge'', js_or (bodyField b ''badge'') JNull),
             (''badgeColor'', js_or (bodyField b ''badgeColor'') JNull),
             (''isLarge'', JBool (truthy (bodyField b ''isLarge''))),
             (''tags'', if isArray (bodyField b ''tags'') then bodyField b ''tags'' else JArr []),
             (''createdAt'', JDate (now e))]])\<rparr>)"
  using assms
  by (simp add: post_items_def validItem_def accepts_def getItemsCollection_ok insertOne_def
      idFree_def bodyField_def Let_def)


lemma delete_user_result:
  assumes "ObjectId_new id' = Inr i" "connectable e s" "driverOk e (DeleteOne ''users'')"
  shows "delete_user e id' s =
     (if idFree s ''users'' i
      then (json 404 (JObj [(''error'', JStr ''User not found'')]),
            (afterConnect s)\<lparr>calls := calls (afterConnect s) @ [DeleteOne ''users'']\<rparr>)
      else (json 200 (JObj [(''message'', JStr ''User deleted successfully''),
                            (''deletedId'', JStr id')]),
            (afterConnect s)\<lparr>calls := calls (afterConnect s) @ [DeleteOne ''users''],
               db := (db s)(''users'' := deleteFirst (matches (''_id'', JObjectId i)) (db s ''users''))\<rparr>))"
  using assms
  by (simp add: delete_user_def ObjectId_isValid_def getUsersCollection_ok deleteOne_def
      find_matches_None idFree_def Let_def)

lemma delete_item_result:
  assumes "ObjectId_new id' = Inr i" "connectable e s" "driverOk e (DeleteOne ''items'')"
  shows "delete_item e id' s =
     (if idFree s ''items'' i
      then (json 404 (JObj [(''error'', JStr ''Item not found'')]),
            (afterConnect s)\<lparr>calls := calls (afterConnect s) @ [DeleteOne ''items'']\<rparr>)
      else (json 200 (JObj [(''message'', JStr ''Item deleted successfully''),
                            (''deletedId'', JStr id')]),
            (afterConnect s)\<lparr>calls := calls (afterConnect s) @ [DeleteOne ''items''],
               db := (db s)(''items'' := deleteFirst (matches (''_id'', JObjectId i)) (db s ''items''))\<rparr>))"
  using assms
  by (simp add: delete_item_def ObjectId_isValid_def getItemsCollection_ok deleteOne_def
      find_matches_None idFree_def Let_def)

lemma get_user_result:
  assumes "ObjectId_new id' = Inr i" "connectable e s" "driverOk e (FindOne ''users'')"
  shows "fst (get_user e id' s) =
     (case find (matches (''_id'', JObjectId i)) (db s ''users'') of
        None \<Rightarrow> json 404 (JObj [(''error'', JStr ''User not found'')])
      | Some user \<Rightarrow> json 200 (JObj user))"
  using assms
  by (simp add: get_user_def ObjectId_isValid_def getUsersCollection_ok findOne_def Let_def
      split: option.splits)

lemma get_item_result:
  assumes "ObjectId_new id' = Inr i" "connectable e s" "driverOk e (FindOne ''items'')"
  shows "fst (get_item e id' s) =
     (case find (matches (''_id'', JObjectId i)) (db s ''items'') of
        None \<Rightarrow> json 404 (JObj [(''error'', JStr ''Item not found'')])
      | Some item \<Rightarrow> json 200 (JObj item))"
  using assms
  by (simp add: get_item_def ObjectId_isValid_def getItemsCollection_ok findOne_def Let_def
      split: option.splits)


text \<open>An identifier of the examples, printed and parsed.\<close>

lemma sample_hex:
  "toHexString 0x507f1f77bcf86cd799439011 = ''507f1f77bcf86cd799439011''"
proof -
  have "unat (0x507f1f77bcf86cd799439011 :: 96 word) = 0x507f1f77bcf86cd799439011"
    by simp
  then show ?thesis
    unfolding toHexString_def by (simp add: hexDigit_def toHex_numeral)
qed

lemma sample_parse:
  "ObjectId_new ''507f1f77bcf86cd799439011'' = Inr 0x507f1f77bcf86cd799439011"
  by (simp add: ObjectId_new_def hexVal_def)

lemma other_parse:
  "ObjectId_new ''000000000000000000000009'' = Inr 9"
  by (simp add: ObjectId_new_def hexVal_def)

section \<open>The wire form of an answer\<close>

lemma decimal_numeral:
  "decimal (numeral k) n = decimal (pred_numeral k) (n div 10) @ [''0123456789'' ! (n mod 10)]"
  using decimal.simps(2)[of "pred_numeral k" n] by (simp only: numeral_eq_Suc)

lemmas toISOString_defs = toISOString_def yearString_def YearFromTime_def MonthFromTime_def
  DateFromTime_def monthFromMarch_def dayOfMarchYear_def yearOfEra_def dayOfEra_def eraOf_def
  TimeWithinDay_def Day_def

lemma sample_date: "sent (JDate 1700000000000) = JStr ''2023-11-14T22:13:20.000Z''"
  by (simp add: toISOString_defs decimal_numeral)

text \<open>JSON carries a plain value unchanged.\<close>

lemma sent_plain:
  "plainJson v \<longrightarrow> sent v = v"
  "plainItems vs \<longrightarrow> sentItems vs = vs"
  "plainProps kvs \<longrightarrow> sentProps kvs = kvs"
  by (induction v and vs and kvs rule: sent_sentItems_sentProps.induct) auto

lemma truthy_defined: "truthy v \<Longrightarrow> v \<noteq> JUndefined"
  by auto

lemma is_number_defined: "is_number v \<Longrightarrow> v \<noteq> JUndefined"
  by auto

lemma js_or_defined: "d \<noteq> JUndefined \<Longrightarrow> js_or v d \<noteq> JUndefined"
  by (auto simp: js_or_def)

lemma tags_defined: "(if isArray v then v else JArr []) \<noteq> JUndefined"
  by auto

lemma js_or_truthy: "truthy v \<Longrightarrow> js_or v d = v"
  by (simp add: js_or_def)

section \<open>Creating and reading back an item\<close>

text \<open>
  Claim C1, as the code has it. For every valid item-creation body (truthy \<^verbatim>\<open>name\<close>
  and \<^verbatim>\<open>description\<close>, \<^verbatim>\<open>price\<close> a number) that the store accepts, the answer is
  201. The value handed to \<^verbatim>\<open>res.json\<close> is the assigned \<^verbatim>\<open>_id\<close>, then
  \<^verbatim>\<open>name\<close>, \<^verbatim>\<open>description\<close> and \<^verbatim>\<open>price\<close> as read from the body, then
  \<^verbatim>\<open>category\<close>, \<^verbatim>\<open>image\<close>, \<^verbatim>\<open>badge\<close> and \<^verbatim>\<open>badgeColor\<close> as read when truthy
  and their defaults otherwise, \<^verbatim>\<open>isLarge\<close> as the boolean the submitted value coerces
  to, \<^verbatim>\<open>tags\<close> as read when an array and empty otherwise, and the server's
  \<^verbatim>\<open>createdAt\<close>; no other submitted field is in it. The body the client receives is
  the JSON of that value, field by field: the \<^verbatim>\<open>_id\<close> as 24 hexadecimal digits, the
  \<^verbatim>\<open>createdAt\<close> as an ISO timestamp, and each submitted value as JSON carries it. So
  \<^verbatim>\<open>name\<close>, \<^verbatim>\<open>description\<close> and \<^verbatim>\<open>price\<close> read back as submitted when they are
  plain (no number in them that is not finite, no negative zero), and so do the truthy
  optional fields and an array of \<^verbatim>\<open>tags\<close>; a price that is not finite, as
  \<^verbatim>\<open>1e999\<close> parses to, reads back \<^verbatim>\<open>null\<close>. A following get-by-id with the printed
  \<^verbatim>\<open>_id\<close> answers 200 with the identical record, handed over and on the wire, and
  only looks the record up.
\<close>

theorem C1_created_item_is_returned_and_readable:
  assumes "validItem b" "accepts e ''items'' s" "driverOk e' (FindOne ''items'')"
  shows "fst (post_items e b s) =
      json 201 (JObj
        [(''_id'', JObjectId (newId e)),
         (''name'', bodyField b ''name''),
         (''description'', bodyField b ''description''),
         (''price'', bodyField b ''price''),
         (''category'', js_or (bodyField b ''category'') (JStr ''Uncategorized'')),
         (''image'', js_or (bodyField b ''image'') (JStr [])),
         (''badge'', js_or (bodyField b ''badge'') JNull),
         (''badgeColor'', js_or (bodyField b ''badgeColor'') JNull),
         (''isLarge'', JBool (truthy (bodyField b ''isLarge''))),
         (''tags'', if isArray (bodyField b ''tags'') then bodyField b ''tags'' else JArr []),
         (''createdAt'', JDate (now e))])
    \<and> sent (body (fst (post_items e b s))) =
      JObj
        [(''_id'', JStr (toHexString (newId e))),
         (''name'', sent (bodyField b ''name'')),
         (''description'', sent (bodyField b ''description'')),
         (''price'', sent (bodyField b ''price'')),
         (''category'', sent (js_or (bodyField b ''category'') (JStr ''Uncategorized''))),
         (''image'', sent (js_or (bodyField b ''image'') (JStr []))),
         (''badge'', sent (js_or (bodyField b ''badge'') JNull)),
         (''badgeColor'', sent (js_or (bodyField b ''badgeColor'') JNull)),
         (''isLarge'', JBool (truthy (bodyField b ''isLarge''))),
         (''tags'', sent (if isArray (bodyField b ''tags'') then bodyField b ''tags'' else JArr [])),
         (''createdAt'', sent (JDate (now e)))]
    \<and> list_all (\<lambda>k. plainJson (bodyField b k) \<longrightarrow>
          get_field (sent (body (fst (post_items e b s)))) k = bodyField b k)
        [''name'', ''description'', ''price'']
    \<and> list_all (\<lambda>k. truthy (bodyField b k) \<and> plainJson (bodyField b k) \<longrightarrow>
          get_field (sent (body (fst (post_items e b s)))) k = bodyField b k)
        [''category'', ''image'', ''badge'', ''badgeColor'']
    \<and> (isArray (bodyField b ''tags'') \<and> plainJson (bodyField b ''tags'') \<longrightarrow>
          get_field (sent (body (fst (post_items e b s)))) ''tags'' = bodyField b ''tags'')
    \<and> get_item e' (toHexString (newId e)) (snd (post_items e b s)) =
        (json 200 (body (fst (post_items e b s))),
         (snd (post_items e b s))
           \<lparr>calls := calls (snd (post_items e b s)) @ [FindOne ''items'']\<rparr>)
    \<and> sent (body (fst (get_item e' (toHexString (newId e)) (snd (post_items e b s)))))
        = sent (body (fst (post_items e b s)))"
proof -
  note created = post_items_created [OF assms(1,2)]
  from assms(1) have def: "bodyField b ''name'' \<noteq> JUndefined"
    "bodyField b ''description'' \<noteq> JUndefined" "bodyField b ''price'' \<noteq> JUndefined"
    by (auto simp: validItem_def dest: truthy_defined is_number_defined)
  have handed: "fst (post_items e b s) =
      json 201 (JObj
        [(''_id'', JObjectId (newId e)),
         (''name'', bodyField b ''name''),
         (''description'', bodyField b ''description''),
         (''price'', bodyField b ''price''),
         (''category'', js_or (bodyField b ''category'') (JStr ''Uncategorized'')),
         (''image'', js_or (bodyField b ''image'') (JStr [])),
         (''badge'', js_or (bodyField b ''badge'') JNull),
         (''badgeColor'', js_or (bodyField b ''badgeColor'') JNull),
         (''isLarge'', JBool (truthy (bodyField b ''isLarge''))),
         (''tags'', if isArray (bodyField b ''tags'') then bodyField b ''tags'' else JArr []),
         (''createdAt'', JDate (now e))])"
    by (simp add: created)
  have wire: "sent (body (fst (post_items e b s))) =
      JObj
        [(''_id'', JStr (toHexString (newId e))),
         (''name'', sent (bodyField b ''name'')),
         (''description'', sent (bodyField b ''description'')),
         (''price'', sent (bodyField b ''price'')),
         (''category'', sent (js_or (bodyField b ''category'') (JStr ''Uncategorized''))),
         (''image'', sent (js_or (bodyField b ''image'') (JStr []))),
         (''badge'', sent (js_or (bodyField b ''badge'') JNull)),
         (''badgeColor'', sent (js_or (bodyField b ''badgeColor'') JNull)),
         (''isLarge'', JBool (truthy (bodyField b ''isLarge''))),
         (''tags'', sent (if isArray (bodyField b ''tags'') then bodyField b ''tags'' else JArr [])),
         (''createdAt'', sent (JDate (now e)))]"
    unfolding handed json_def
    using def tags_defined [of "bodyField b ''tags''"]
    by (simp add: js_or_defined del: sent.simps(12))
  have req: "list_all (\<lambda>k. plainJson (bodyField b k) \<longrightarrow>
          get_field (sent (body (fst (post_items e b s)))) k = bodyField b k)
        [''name'', ''description'', ''price'']"
    unfolding wire by (simp add: getProp_def sent_plain)
  have opt: "list_all (\<lambda>k. truthy (bodyField b k) \<and> plainJson (bodyField b k) \<longrightarrow>
          get_field (sent (body (fst (post_items e b s)))) k = bodyField b k)
        [''category'', ''image'', ''badge'', ''badgeColor'']"
    unfolding wire by (simp add: getProp_def sent_plain js_or_truthy)
  have tags: "isArray (bodyField b ''tags'') \<and> plainJson (bodyField b ''tags'') \<longrightarrow>
          get_field (sent (body (fst (post_items e b s)))) ''tags'' = bodyField b ''tags''"
    unfolding wire by (simp add: getProp_def sent_plain)
  from assms(2) have "find (matches (''_id'', JObjectId (newId e))) (db s ''items'') = None"
    by (simp add: accepts_def idFree_def find_matches_None)
  then have get: "get_item e' (toHexString (newId e)) (snd (post_items e b s)) =
        (json 200 (body (fst (post_items e b s))),
         (snd (post_items e b s))
           \<lparr>calls := calls (snd (post_items e b s)) @ [FindOne ''items'']\<rparr>)"
    using assms(3)
    by (simp add: created get_item_def ObjectId_isValid_toHexString
        ObjectId_new_toHexString getItemsCollection_ok connectable_connected
        afterConnect_connected findOne_def find_append_list matches_def getProp_def json_def Let_def)
  then have same: "sent (body (fst (get_item e' (toHexString (newId e)) (snd (post_items e b s)))))
        = sent (body (fst (post_items e b s)))"
    by (simp add: json_def)
  from handed wire req opt tags get same show ?thesis
    by (intro conjI)
qed

theorem C1_witness:
  "validItem tacos \<and> accepts (env_up 1700000000000 0x507f1f77bcf86cd799439011) ''items'' initial
   \<and> status (fst (post_items (env_up 1700000000000 0x507f1f77bcf86cd799439011) tacos initial)) = 201
   \<and> sent (body (fst (post_items (env_up 1700000000000 0x507f1f77bcf86cd799439011) tacos initial))) =
      JObj
        [(''_id'', JStr ''507f1f77bcf86cd799439011''),
         (''name'', JStr ''Tacos''),
         (''description'', JStr ''Corn tortilla''),
         (''price'', JNum (Finite (17 / 2))),
         (''category'', JStr ''Uncategorized''),
         (''image'', JStr []),
         (''badge'', JNull),
         (''badgeColor'', JNull),
         (''isLarge'', JBool False),
         (''tags'', JArr []),
         (''createdAt'', JStr ''2023-11-14T22:13:20.000Z'')]
   \<and> sent (body (fst (get_item (env_up 1700000000500 0) ''507f1f77bcf86cd799439011''
        (snd (post_items (env_up 1700000000000 0x507f1f77bcf86cd799439011) tacos initial)))))
      = sent (body (fst (post_items (env_up 1700000000000 0x507f1f77bcf86cd799439011) tacos initial)))
   \<and> validItem pricey
   \<and> get_field pricey ''price'' = JNum PosInfinity
   \<and> status (fst (post_items (env_up 1700000000000 0x507f1f77bcf86cd799439011) pricey initial)) = 201
   \<and> get_field (sent (body (fst (post_items (env_up 1700000000000 0x507f1f77bcf86cd799439011)
        pricey initial)))) ''price'' = JNull"
proof -
  have v: "validItem tacos" "validItem pricey"
    by (simp_all add: validItem_def tacos_def pricey_def bodyField_def js_or_def getProp_def)
  have a: "accepts (env_up 1700000000000 0x507f1f77bcf86cd799439011) ''items'' initial"
    by (simp add: accepts_def connectable_def idFree_def env_up_def initial_def)
  have f: "driverOk (env_up 1700000000500 0) (FindOne ''items'')"
    by (simp add: env_up_def)
  have n: "newId (env_up 1700000000000 0x507f1f77bcf86cd799439011) = 0x507f1f77bcf86cd799439011"
    "now (env_up 1700000000000 0x507f1f77bcf86cd799439011) = 1700000000000"
    by (simp_all add: env_up_def)
  have t: "bodyField tacos ''name'' = JStr ''Tacos''"
    "bodyField tacos ''description'' = JStr ''Corn tortilla''"
    "bodyField tacos ''price'' = JNum (Finite (17 / 2))"
    "bodyField tacos ''category'' = JUndefined" "bodyField tacos ''image'' = JUndefined"
    "bodyField tacos ''badge'' = JUndefined" "bodyField tacos ''badgeColor'' = JUndefined"
    "bodyField tacos ''isLarge'' = JUndefined" "bodyField tacos ''tags'' = JUndefined"
    by (simp_all add: tacos_def bodyField_def js_or_def getProp_def)
  have p: "bodyField pricey ''price'' = JNum PosInfinity" "get_field pricey ''price'' = JNum PosInfinity"
    by (simp_all add: pricey_def bodyField_def js_or_def getProp_def)
  note w1 = C1_created_item_is_returned_and_readable [OF v(1) a f]
  note w2 = C1_created_item_is_returned_and_readable [OF v(2) a f]
  from w1 have first: "fst (post_items (env_up 1700000000000 0x507f1f77bcf86cd799439011) tacos initial)
      = json 201 (JObj
        [(''_id'', JObjectId (newId (env_up 1700000000000 0x507f1f77bcf86cd799439011))),
         (''name'', bodyField tacos ''name''),
         (''description'', bodyField tacos ''description''),
         (''price'', bodyField tacos ''price''),
         (''category'', js_or (bodyField tacos ''category'') (JStr ''Uncategorized'')),
         (''image'', js_or (bodyField tacos ''image'') (JStr [])),
         (''badge'', js_or (bodyField tacos ''badge'') JNull),
         (''badgeColor'', js_or (bodyField tacos ''badgeColor'') JNull),
         (''isLarge'', JBool (truthy (bodyField tacos ''isLarge''))),
         (''tags'', if isArray (bodyField tacos ''tags'') then bodyField tacos ''tags'' else JArr []),
         (''createdAt'', JDate (now (env_up 1700000000000 0x507f1f77bcf86cd799439011)))])"
    by (elim conjE)
  then have st1: "status (fst (post_items (env_up 1700000000000 0x507f1f77bcf86cd799439011) tacos initial)) = 201"
    by (simp add: json_def)
  from w1 have "sent (body (fst (post_items (env_up 1700000000000 0x507f1f77bcf86cd799439011) tacos initial))) =
      JObj
        [(''_id'', JStr (toHexString (newId (env_up 1700000000000 0x507f1f77bcf86cd799439011)))),
         (''name'', sent (bodyField tacos ''name'')),
         (''description'', sent (bodyField tacos ''description'')),
         (''price'', sent (bodyField tacos ''price'')),
         (''category'', sent (js_or (bodyField tacos ''category'') (JStr ''Uncategorized''))),
         (''image'', sent (js_or (bodyField tacos ''image'') (JStr []))),
         (''badge'', sent (js_or (bodyField tacos ''badge'') JNull)),
         (''badgeColor'', sent (js_or (bodyField tacos ''badgeColor'') JNull)),
         (''isLarge'', JBool (truthy (bodyField tacos ''isLarge''))),
         (''tags'', sent (if isArray (bodyField tacos ''tags'') then bodyField tacos ''tags'' else JArr [])),
         (''createdAt'', sent (JDate (now (env_up 1700000000000 0x507f1f77bcf86cd799439011))))]"
    by (elim conjE)
  then have wire1: "sent (body (fst (post_items (env_up 1700000000000 0x507f1f77bcf86cd799439011) tacos initial))) =
      JObj
        [(''_id'', JStr ''507f1f77bcf86cd799439011''),
         (''name'', JStr ''Tacos''),
         (''description'', JStr ''Corn tortilla''),
         (''price'', JNum (Finite (17 / 2))),
         (''category'', JStr ''Uncategorized''),
         (''image'', JStr []),
         (''badge'', JNull),
         (''badgeColor'', JNull),
         (''isLarge'', JBool False),
         (''tags'', JArr []),
         (''createdAt'', JStr ''2023-11-14T22:13:20.000Z'')]"
    unfolding n sample_hex sample_date t by (simp add: js_or_def)
  from w1 have same: "sent (body (fst (get_item (env_up 1700000000500 0)
        (toHexString (newId (env_up 1700000000000 0x507f1f77bcf86cd799439011)))
        (snd (post_items (env_up 1700000000000 0x507f1f77bcf86cd799439011) tacos initial)))))
      = sent (body (fst (post_items (env_up 1700000000000 0x507f1f77bcf86cd799439011) tacos initial)))"
    by (elim conjE)
  from w2 have "fst (post_items (env_up 1700000000000 0x507f1f77bcf86cd799439011) pricey initial)
      = json 201 (JObj
        [(''_id'', JObjectId (newId (env_up 1700000000000 0x507f1f77bcf86cd799439011))),
         (''name'', bodyField pricey ''name''),
         (''description'', bodyField pricey ''description''),
         (''price'', bodyField pricey ''price''),
         (''category'', js_or (bodyField pricey ''category'') (JStr ''Uncategorized'')),
         (''image'', js_or (bodyField pricey ''image'') (JStr [])),
         (''badge'', js_or (bodyField pricey ''badge'') JNull),
         (''badgeColor'', js_or (bodyField pricey ''badgeColor'') JNull),
         (''isLarge'', JBool (truthy (bodyField pricey ''isLarge''))),
         (''tags'', if isArray (bodyField pricey ''tags'') then bodyField pricey ''tags'' else JArr []),
         (''createdAt'', JDate (now (env_up 1700000000000 0x507f1f77bcf86cd799439011)))])"
    by (elim conjE)
  then have st2: "status (fst (post_items (env_up 1700000000000 0x507f1f77bcf86cd799439011) pricey initial)) = 201"
    by (simp add: json_def)
  from w2 have "sent (body (fst (post_items (env_up 1700000000000 0x507f1f77bcf86cd799439011) pricey initial))) =
      JObj
        [(''_id'', JStr (toHexString (newId (env_up 1700000000000 0x507f1f77bcf86cd799439011)))),
         (''name'', sent (bodyField pricey ''name'')),
         (''description'', sent (bodyField pricey ''description'')),
         (''price'', sent (bodyField pricey ''price'')),
         (''category'', sent (js_or (bodyField pricey ''category'') (JStr ''Uncategorized''))),
         (''image'', sent (js_or (bodyField pricey ''image'') (JStr []))),
         (''badge'', sent (js_or (bodyField pricey ''badge'') JNull)),
         (''badgeColor'', sent (js_or (bodyField pricey ''badgeColor'') JNull)),
         (''isLarge'', JBool (truthy (bodyField pricey ''isLarge''))),
         (''tags'', sent (if isArray (bodyField pricey ''tags'') then bodyField pricey ''tags'' else JArr [])),
         (''createdAt'', sent (JDate (now (env_up 1700000000000 0x507f1f77bcf86cd799439011))))]"
    by (elim conjE)
  then have wire2: "get_field (sent (body (fst (post_items (env_up 1700000000000 0x507f1f77bcf86cd799439011)
        pricey initial)))) ''price'' = JNull"
    unfolding p by (simp add: getProp_def del: sent.simps(12))
  from v a st1 wire1 same [unfolded n sample_hex] p(2) st2 wire2 show ?thesis
    by (intro conjI)
qed

text \<open>
  Read literally, "the response echoes every submitted field" fails: a body that is valid
  and answered 201 submits \<^verbatim>\<open>category: ""\<close> and reads back "Uncategorized", submits
  \<^verbatim>\<open>isLarge: 1\<close> and reads back \<^verbatim>\<open>isLarge: true\<close>, and submits
  \<^verbatim>\<open>calories: 250\<close>, a field the handler does not destructure, and reads back no
  such field; in the value handed to \<^verbatim>\<open>res.json\<close> and in what the client receives.
\<close>

theorem C1_counterexample:
  "validItem loaded
   \<and> status (fst (post_items (env_up 1000 1) loaded initial)) = 201
   \<and> get_field loaded ''category'' = JStr []
   \<and> get_field (body (fst (post_items (env_up 1000 1) loaded initial))) ''category''
       = JStr ''Uncategorized''
   \<and> get_field (sent (body (fst (post_items (env_up 1000 1) loaded initial)))) ''category''
       = JStr ''Uncategorized''
   \<and> get_field loaded ''isLarge'' = JNum (Finite 1)
   \<and> get_field (body (fst (post_items (env_up 1000 1) loaded initial))) ''isLarge'' = JBool True
   \<and> get_field (sent (body (fst (post_items (env_up 1000 1) loaded initial)))) ''isLarge''
       = JBool True
   \<and> get_field loaded ''calories'' = JNum (Finite 250)
   \<and> get_field (body (fst (post_items (env_up 1000 1) loaded initial))) ''calories'' = JUndefined
   \<and> get_field (sent (body (fst (post_items (env_up 1000 1) loaded initial)))) ''calories''
       = JUndefined"
  by (simp add: loaded_def validItem_def bodyField_def js_or_def getProp_def post_items_def
      getItemsCollection_def connectToMongo_def insertOne_def initial_def env_up_def json_def Let_def
      del: sent.simps(12) sent.simps(13))

section \<open>Duplicate e-mail addresses\<close>



section \<open>Listing\<close>

text \<open>
  Claim C5. With the store reachable, in every state: the items list answers 200 with the
  first 100 documents of the items collection sorted by \<^verbatim>\<open>createdAt\<close>, newest first,
  so with \<open>min 100 n\<close> of its \<open>n\<close> documents; the users list answers 200 with all
  documents of the users collection sorted the same way, with no cap. Both lists are in
  descending order of \<^verbatim>\<open>createdAt\<close>, the sort loses and adds no document, and listing
  changes no collection.
\<close>

theorem C5_lists_newest_first_items_capped:
  assumes "connectable e s" "driverOk e (Find ''items'')" "driverOk e (Find ''users'')"
  shows "fst (get_items e s) = json 200 (JArr (map JObj (take 100 (sortDescending (db s ''items'')))))
    \<and> fst (get_users e s) = json 200 (JArr (map JObj (sortDescending (db s ''users''))))
    \<and> sorted_wrt (\<lambda>a b. createdAtKey b \<le> createdAtKey a)
         (take 100 (sortDescending (db s ''items'')))
    \<and> sorted_wrt (\<lambda>a b. createdAtKey b \<le> createdAtKey a) (sortDescending (db s ''users''))
    \<and> length (take 100 (sortDescending (db s ''items''))) = min 100 (length (db s ''items''))
    \<and> mset (sortDescending (db s ''items'')) = mset (db s ''items'')
    \<and> mset (sortDescending (db s ''users'')) = mset (db s ''users'')
    \<and> db (snd (get_items e s)) = db s
    \<and> db (snd (get_users e s)) = db s"
proof -
  have "length (sortDescending ds) = length ds" for ds
    by (simp add: sortDescending_def)
  then have len: "length (take 100 (sortDescending (db s ''items''))) = min 100 (length (db s ''items''))"
    by simp
  have items: "get_items e s =
      (json 200 (JArr (map JObj (take 100 (sortDescending (db s ''items''))))),
       (afterConnect s)\<lparr>calls := calls (afterConnect s) @ [Find ''items'']\<rparr>)"
    using assms by (simp add: get_items_def getItemsCollection_ok findSorted_def Let_def)
  have users: "get_users e s =
      (json 200 (JArr (map JObj (sortDescending (db s ''users'')))),
       (afterConnect s)\<lparr>calls := calls (afterConnect s) @ [Find ''users'']\<rparr>)"
    using assms by (simp add: get_users_def getUsersCollection_ok findSorted_def Let_def)
  have "sorted_wrt (\<lambda>a b. createdAtKey b \<le> createdAtKey a)
         (take 100 (sortDescending (db s ''items'')))"
    using sortDescending_sorted [of "db s ''items''"] by (rule sorted_wrt_take)
  with len show ?thesis
    by (simp add: items users sortDescending_sorted mset_sortDescending)
qed

theorem C5_witness:
  "fst (get_items (env_up 0 9) stocked) =
     json 200 (JArr
       [JObj [(''_id'', JObjectId 2), (''name'', JStr ''Tacos''), (''createdAt'', JDate 30)],
        JObj [(''_id'', JObjectId 3), (''name'', JStr ''Rice''), (''createdAt'', JDate 20)],
        JObj [(''_id'', JObjectId 1), (''name'', JStr ''Soup''), (''createdAt'', JDate 10)]])
   \<and> fst (get_users (env_up 0 9) stocked) =
     json 200 (JArr
       [JObj [(''_id'', JObjectId 4), (''email'', JStr ''bob@example.com''), (''createdAt'', JDate 7)],
        JObj [(''_id'', JObjectId 0x507f1f77bcf86cd799439011), (''email'', JStr ''ann@example.com''),
              (''createdAt'', JDate 5)]])"
proof -
  have c: "connectable (env_up 0 9) stocked"
    by (simp add: connectable_def stocked_def)
  have i: "driverOk (env_up 0 9) (Find ''items'')" and u: "driverOk (env_up 0 9) (Find ''users'')"
    by (simp_all add: env_up_def)
  from C5_lists_newest_first_items_capped [OF c i u] show ?thesis
    by (simp add: stocked_def sortDescending_def createdAtKey_def getProp_def)
qed

section \<open>Deleting\<close>

text \<open>
  Claim C6. For every valid id (one that parses to an identifier \<open>i\<close>), with the store
  reachable and its index on \<^verbatim>\<open>_id\<close> in place, for users and for items alike:
  when no document has the identifier, delete answers 404 and the collections are as
  before; when one has, delete answers 200 with the message and the id as it was given,
  the collection loses the document with that identifier and no other (it is one shorter,
  the other documents stay in order), the other collection is untouched, and a following
  get-by-id with the same id answers 404.
\<close>

theorem C6_delete_then_get_is_404:
  assumes "ObjectId_new id' = Inr i" "connectable e s"
    "driverOk e (DeleteOne ''users'')" "driverOk e (DeleteOne ''items'')"
    "driverOk e' (FindOne ''users'')" "driverOk e' (FindOne ''items'')"
    "uniqueIds (db s ''users'')" "uniqueIds (db s ''items'')"
  shows "(idFree s ''users'' i \<longrightarrow>
        fst (delete_user e id' s) = json 404 (JObj [(''error'', JStr ''User not found'')])
        \<and> db (snd (delete_user e id' s)) = db s)
    \<and> (\<not> idFree s ''users'' i \<longrightarrow>
        fst (delete_user e id' s) =
          json 200 (JObj [(''message'', JStr ''User deleted successfully''),
                          (''deletedId'', JStr id')])
        \<and> db (snd (delete_user e id' s)) =
            (db s)(''users'' := filter (\<lambda>d. getProp d ''_id'' \<noteq> JObjectId i) (db s ''users''))
        \<and> length (db (snd (delete_user e id' s)) ''users'') + 1 = length (db s ''users'')
        \<and> fst (get_user e' id' (snd (delete_user e id' s))) =
            json 404 (JObj [(''error'', JStr ''User not found'')]))
    \<and> (idFree s ''items'' i \<longrightarrow>
        fst (delete_item e id' s) = json 404 (JObj [(''error'', JStr ''Item not found'')])
        \<and> db (snd (delete_item e id' s)) = db s)
    \<and> (\<not> idFree s ''items'' i \<longrightarrow>
        fst (delete_item e id' s) =
          json 200 (JObj [(''message'', JStr ''Item deleted successfully''),
                          (''deletedId'', JStr id')])
        \<and> db (snd (delete_item e id' s)) =
            (db s)(''items'' := filter (\<lambda>d. getProp d ''_id'' \<noteq> JObjectId i) (db s ''items''))
        \<and> length (db (snd (delete_item e id' s)) ''items'') + 1 = length (db s ''items'')
        \<and> fst (get_item e' id' (snd (delete_item e id' s))) =
            json 404 (JObj [(''error'', JStr ''Item not found'')]))"
proof -
  note du = delete_user_result [OF assms(1) assms(2) assms(3)]
  note di = delete_item_result [OF assms(1) assms(2) assms(4)]
  have u404: "fst (delete_user e id' s) = json 404 (JObj [(''error'', JStr ''User not found'')])
        \<and> db (snd (delete_user e id' s)) = db s" if "idFree s ''users'' i"
    using that by (simp add: du)
  have i404: "fst (delete_item e id' s) = json 404 (JObj [(''error'', JStr ''Item not found'')])
        \<and> db (snd (delete_item e id' s)) = db s" if "idFree s ''items'' i"
    using that by (simp add: di)
  have u200: "fst (delete_user e id' s) =
          json 200 (JObj [(''message'', JStr ''User deleted successfully''),
                          (''deletedId'', JStr id')])
        \<and> db (snd (delete_user e id' s)) =
            (db s)(''users'' := filter (\<lambda>d. getProp d ''_id'' \<noteq> JObjectId i) (db s ''users''))
        \<and> length (db (snd (delete_user e id' s)) ''users'') + 1 = length (db s ''users'')
        \<and> fst (get_user e' id' (snd (delete_user e id' s))) =
            json 404 (JObj [(''error'', JStr ''User not found'')])" if "\<not> idFree s ''users'' i"
  proof -
    from that have f: "find (matches (''_id'', JObjectId i)) (db s ''users'') \<noteq> None"
      by (simp add: idFree_def find_matches_None)
    have c: "isConnected (snd (delete_user e id' s))"
      using that by (simp add: du)
    have d: "db (snd (delete_user e id' s)) =
        (db s)(''users'' := filter (\<lambda>d. getProp d ''_id'' \<noteq> JObjectId i) (db s ''users''))"
      using that by (simp add: du deleteFirst_unique [OF assms(7)])
    have l: "length (db (snd (delete_user e id' s)) ''users'') + 1 = length (db s ''users'')"
      using that length_deleteFirst [OF f] by (simp add: du)
    have g: "fst (get_user e' id' (snd (delete_user e id' s))) =
        json 404 (JObj [(''error'', JStr ''User not found'')])"
      by (simp add: get_user_result [OF assms(1) connectable_connected [OF c] assms(5)] d
          find_after_delete)
    from that d l g show ?thesis by (simp add: du)
  qed
  have i200: "fst (delete_item e id' s) =
          json 200 (JObj [(''message'', JStr ''Item deleted successfully''),
                          (''deletedId'', JStr id')])
        \<and> db (snd (delete_item e id' s)) =
            (db s)(''items'' := filter (\<lambda>d. getProp d ''_id'' \<noteq> JObjectId i) (db s ''items''))
        \<and> length (db (snd (delete_item e id' s)) ''items'') + 1 = length (db s ''items'')
        \<and> fst (get_item e' id' (snd (delete_item e id' s))) =
            json 404 (JObj [(''error'', JStr ''Item not found'')])" if "\<not> idFree s ''items'' i"
  proof -
    from that have f: "find (matches (''_id'', JObjectId i)) (db s ''items'') \<noteq> None"
      by (simp add: idFree_def find_matches_None)
    have c: "isConnected (snd (delete_item e id' s))"
      using that by (simp add: di)
    have d: "db (snd (delete_item e id' s)) =
        (db s)(''items'' := filter (\<lambda>d. getProp d ''_id'' \<noteq> JObjectId i) (db s ''items''))"
      using that by (simp add: di deleteFirst_unique [OF assms(8)])
    have l: "length (db (snd (delete_item e id' s)) ''items'') + 1 = length (db s ''items'')"
      using that length_deleteFirst [OF f] by (simp add: di)
    have g: "fst (get_item e' id' (snd (delete_item e id' s))) =
        json 404 (JObj [(''error'', JStr ''Item not found'')])"
      by (simp add: get_item_result [OF assms(1) connectable_connected [OF c] assms(6)] d
          find_after_delete)
    from that d l g show ?thesis by (simp add: di)
  qed
  from u404 u200 i404 i200 show ?thesis by blast
qed

theorem C6_witness:
  "fst (delete_user (env_up 0 9) ''507f1f77bcf86cd799439011'' stocked) =
     json 200 (JObj [(''message'', JStr ''User deleted successfully''),
                     (''deletedId'', JStr ''507f1f77bcf86cd799439011'')])
   \<and> db (snd (delete_user (env_up 0 9) ''507f1f77bcf86cd799439011'' stocked)) ''users'' =
       [[(''_id'', JObjectId 4), (''email'', JStr ''bob@example.com''), (''createdAt'', JDate 7)]]
   \<and> fst (get_user (env_up 1 9) ''507f1f77bcf86cd799439011''
        (snd (delete_user (env_up 0 9) ''507f1f77bcf86cd799439011'' stocked))) =
       json 404 (JObj [(''error'', JStr ''User not found'')])
   \<and> fst (delete_item (env_up 0 9) ''507f1f77bcf86cd799439011'' stocked) =
       json 404 (JObj [(''error'', JStr ''Item not found'')])
   \<and> db (snd (delete_item (env_up 0 9) ''507f1f77bcf86cd799439011'' stocked)) = db stocked
   \<and> fst (delete_user (env_up 0 9) ''000000000000000000000009'' stocked) =
       json 404 (JObj [(''error'', JStr ''User not found'')])
   \<and> fst (delete_item (env_up 0 9) ''000000000000000000000002'' stocked) =
       json 200 (JObj [(''message'', JStr ''Item deleted successfully''),
                       (''deletedId'', JStr ''000000000000000000000002'')])
   \<and> fst (get_item (env_up 1 9) ''000000000000000000000002''
        (snd (delete_item (env_up 0 9) ''000000000000000000000002'' stocked))) =
       json 404 (JObj [(''error'', JStr ''Item not found'')])"
proof -
  have p2: "ObjectId_new ''000000000000000000000002'' = Inr 2"
    by (simp add: ObjectId_new_def hexVal_def)
  have c: "connectable (env_up 0 9) stocked"
    by (simp add: connectable_def stocked_def)
  have ok: "driverOk (env_up 0 9) (DeleteOne ''users'')" "driverOk (env_up 0 9) (DeleteOne ''items'')"
    "driverOk (env_up 1 9) (FindOne ''users'')" "driverOk (env_up 1 9) (FindOne ''items'')"
    by (simp_all add: env_up_def)
  have uq: "uniqueIds (db stocked ''users'')" "uniqueIds (db stocked ''items'')"
    by (simp_all add: uniqueIds_def stocked_def getProp_def)
  have free: "\<not> idFree stocked ''users'' 0x507f1f77bcf86cd799439011"
    "idFree stocked ''items'' 0x507f1f77bcf86cd799439011"
    "idFree stocked ''users'' 9" "\<not> idFree stocked ''items'' 2"
    by (simp_all add: idFree_def stocked_def getProp_def)
  from C6_delete_then_get_is_404 [OF sample_parse c ok uq] C6_delete_then_get_is_404 [OF other_parse c ok uq] C6_delete_then_get_is_404 [OF p2 c ok uq] free
  show ?thesis
    by (simp add: stocked_def getProp_def)
qed

section \<open>Defaults of the optional fields\<close>

text \<open>
  Claim C7. A valid item-creation body that supplies none of the optional fields, such
  as \<^verbatim>\<open>{name: "Tacos", description: "Corn tortilla", price: 8.5}\<close>, is answered 201
  (the store accepting the insert) with \<^verbatim>\<open>category\<close> "Uncategorized", \<^verbatim>\<open>image\<close> the
  empty string, \<^verbatim>\<open>badge\<close> and \<^verbatim>\<open>badgeColor\<close> null, \<^verbatim>\<open>isLarge\<close> false and
  \<^verbatim>\<open>tags\<close> empty; and whatever else a valid body holds, \<^verbatim>\<open>tags\<close> that is not an
  array is answered as the empty array.
\<close>

theorem C7_item_defaults:
  assumes "validItem b" "accepts e ''items'' s"
  shows "(bodyField b ''category'' = JUndefined \<and> bodyField b ''image'' = JUndefined
          \<and> bodyField b ''badge'' = JUndefined \<and> bodyField b ''badgeColor'' = JUndefined
          \<and> bodyField b ''isLarge'' = JUndefined \<and> bodyField b ''tags'' = JUndefined \<longrightarrow>
        fst (post_items e b s) =
          json 201 (JObj
            [(''_id'', JObjectId (newId e)),
             (''name'', bodyField b ''name''),
             (''description'', bodyField b ''description''),
             (''price'', bodyField b ''price''),
             (''category'', JStr ''Uncategorized''),
             (''image'', JStr []),
             (''badge'', JNull),
             (''badgeColor'', JNull),
             (''isLarge'', JBool False),
             (''tags'', JArr []),
             (''createdAt'', JDate (now e))]))
    \<and> (\<not> isArray (bodyField b ''tags'') \<longrightarrow>
        status (fst (post_items e b s)) = 201
        \<and> get_field (body (fst (post_items e b s))) ''tags'' = JArr [])"
  by (simp add: post_items_created [OF assms] js_or_def json_def getProp_def)

theorem C7_witness:
  "fst (post_items (env_up 1000 1) tacos initial) =
      json 201 (JObj
        [(''_id'', JObjectId 1),
         (''name'', JStr ''Tacos''),
         (''description'', JStr ''Corn tortilla''),
         (''price'', JNum (Finite (17 / 2))),
         (''category'', JStr ''Uncategorized''),
         (''image'', JStr []),
         (''badge'', JNull),
         (''badgeColor'', JNull),
         (''isLarge'', JBool False),
         (''tags'', JArr []),
         (''createdAt'', JDate 1000)])
   \<and> get_field plain ''tags'' = JStr ''hot''
   \<and> status (fst (post_items (env_up 1000 1) plain initial)) = 201
   \<and> get_field (body (fst (post_items (env_up 1000 1) plain initial))) ''tags'' = JArr []"
proof -
  have v: "validItem tacos" "validItem plain"
    by (simp_all add: validItem_def tacos_def plain_def bodyField_def js_or_def getProp_def)
  have a: "accepts (env_up 1000 1) ''items'' initial"
    by (simp add: accepts_def connectable_def idFree_def env_up_def initial_def)
  from C7_item_defaults [OF v(1) a] C7_item_defaults [OF v(2) a] show ?thesis
    by (simp add: tacos_def plain_def bodyField_def js_or_def getProp_def env_up_def)
qed



end
